theory Spec2Isabelle
  imports Complex_Main
begin

section \<open>The wallet dashboard: data model\<close>

text \<open>
  The source is the dashboard page component \<^verbatim>\<open>src/app/dashboard/page.tsx\<close>. The part
  embedded here is the part with behaviour of its own: the portfolio totals computed
  from the wallet list (lines 139-141) and the two submit handlers
  \<^verbatim>\<open>handleAddWallet\<close> (lines 168-208) and \<^verbatim>\<open>handleCreateWallet\<close> (lines 219-297).
\<close>

subsection \<open>JavaScript numbers\<close>

text \<open>
  A JavaScript \<^verbatim>\<open>number\<close> is an IEEE 754 double: a finite value, one of the two
  infinities, or \<^verbatim>\<open>NaN\<close>. A finite double is kept as the real number it stands for,
  and every operation rounds its exact result to the nearest double, ties to even,
  with overflow to an infinity and gradual underflow. Only the sign of zero is not
  modelled (a zero divisor is read as \<^verbatim>\<open>+0\<close>).
\<close>

datatype number = Fin real | PosInf | NegInf | NaN

text \<open>The nearest integer to a non-negative real, a tie going to the even neighbour.\<close>

definition roundHalfEven :: "real \<Rightarrow> int" where
  "roundHalfEven a =
     (let f = \<lfloor>a\<rfloor>; d = a - of_int f
      in if d < 1 / 2 then f else if 1 / 2 < d then f + 1 else if even f then f else f + 1)"

text \<open>
  A positive real \<open>x\<close> is written \<open>a * 2 ^ e\<close> with the significand \<open>a\<close> in
  \<open>[2 ^ 52, 2 ^ 53)\<close>, or with \<open>e = -1074\<close> and a smaller \<open>a\<close> when \<open>x\<close> is in the
  subnormal range: halve while the significand is too large, then double while it is too
  small and the exponent is above the least one.
\<close>

function scaleDown :: "real \<Rightarrow> int \<Rightarrow> real \<times> int" where
  "scaleDown a e = (if 2 ^ 53 \<le> a then scaleDown (a / 2) (e + 1) else (a, e))"
  by pat_completeness auto
termination
proof (relation "measure (\<lambda>(a, e). nat \<lfloor>a\<rfloor>)")
  show "wf (measure (\<lambda>(a :: real, e :: int). nat \<lfloor>a\<rfloor>))" by simp
next
  fix a :: real and e :: int
  assume a: "2 ^ 53 \<le> a"
  have "a / 2 \<le> a - 1" using a by simp
  then have "\<lfloor>a / 2\<rfloor> \<le> \<lfloor>a - 1\<rfloor>" by (rule floor_mono)
  then have "\<lfloor>a / 2\<rfloor> < \<lfloor>a\<rfloor>" by simp
  moreover have "0 < \<lfloor>a\<rfloor>" using a by simp
  ultimately show "((a / 2, e + 1), (a, e)) \<in> measure (\<lambda>(a, e). nat \<lfloor>a\<rfloor>)"
    by simp
qed

function scaleUp :: "real \<Rightarrow> int \<Rightarrow> real \<times> int" where
  "scaleUp a e = (if a < 2 ^ 52 \<and> - 1074 < e then scaleUp (2 * a) (e - 1) else (a, e))"
  by pat_completeness auto
termination
  by (relation "measure (\<lambda>(a, e). nat (e + 1074))") auto

declare scaleDown.simps [simp del] scaleUp.simps [simp del]

definition scale2 :: "int \<Rightarrow> int \<Rightarrow> real" where
  "scale2 m e = (if 0 \<le> e then of_int m * 2 ^ nat e else of_int m / 2 ^ nat (- e))"

text \<open>
  The double nearest to a real: the significand is rounded to an integer of at most 53
  bits, and a result of \<open>2 ^ 1024\<close> or more is an infinity.
\<close>

definition double :: "real \<Rightarrow> number" where
  "double x =
     (if x = 0 then Fin 0
      else
        let (a1, e1) = scaleDown \<bar>x\<bar> 0;
            (a, e) = scaleUp a1 e1;
            r = scale2 (roundHalfEven a) e
        in if 2 ^ 1024 \<le> r then (if x < 0 then NegInf else PosInf)
           else Fin (if x < 0 then - r else r))"

fun num_neg :: "number \<Rightarrow> number" where
  "num_neg (Fin x) = Fin (- x)"
| "num_neg PosInf = NegInf"
| "num_neg NegInf = PosInf"
| "num_neg NaN = NaN"

text \<open>\<^verbatim>\<open>a + b\<close>: \<^verbatim>\<open>NaN\<close> is contagious, and \<^verbatim>\<open>Infinity + -Infinity\<close> is \<^verbatim>\<open>NaN\<close>.\<close>

fun num_add :: "number \<Rightarrow> number \<Rightarrow> number" where
  "num_add NaN _ = NaN"
| "num_add _ NaN = NaN"
| "num_add (Fin x) (Fin y) = double (x + y)"
| "num_add PosInf NegInf = NaN"
| "num_add NegInf PosInf = NaN"
| "num_add PosInf _ = PosInf"
| "num_add _ PosInf = PosInf"
| "num_add NegInf _ = NegInf"
| "num_add _ NegInf = NegInf"

definition num_sub :: "number \<Rightarrow> number \<Rightarrow> number" where
  "num_sub a b = num_add a (num_neg b)"

text \<open>The sign of a number that is not \<^verbatim>\<open>NaN\<close>, as \<open>-1\<close>, \<open>0\<close> or \<open>1\<close>.\<close>

fun num_sign :: "number \<Rightarrow> int" where
  "num_sign (Fin x) = (if x < 0 then - 1 else if x = 0 then 0 else 1)"
| "num_sign PosInf = 1"
| "num_sign NegInf = - 1"
| "num_sign NaN = 0"

definition inf_of_sign :: "int \<Rightarrow> number" where
  "inf_of_sign sg = (if sg < 0 then NegInf else PosInf)"

text \<open>\<^verbatim>\<open>a * b\<close>: an infinity times zero is \<^verbatim>\<open>NaN\<close>, otherwise the signs multiply.\<close>

fun num_mul :: "number \<Rightarrow> number \<Rightarrow> number" where
  "num_mul NaN _ = NaN"
| "num_mul _ NaN = NaN"
| "num_mul (Fin x) (Fin y) = double (x * y)"
| "num_mul a b =
     (if num_sign a = 0 \<or> num_sign b = 0 then NaN
      else inf_of_sign (num_sign a * num_sign b))"

text \<open>
  \<^verbatim>\<open>a / b\<close>: no exception is raised. \<^verbatim>\<open>0 / 0\<close> and \<^verbatim>\<open>Infinity / Infinity\<close> are
  \<^verbatim>\<open>NaN\<close>, a non-zero finite number over zero is an infinity with the sign of the
  dividend, a finite number over an infinity is zero.
\<close>

fun num_div :: "number \<Rightarrow> number \<Rightarrow> number" where
  "num_div NaN _ = NaN"
| "num_div _ NaN = NaN"
| "num_div (Fin x) (Fin y) =
     (if y = 0 then (if x = 0 then NaN else inf_of_sign (num_sign (Fin x)))
      else double (x / y))"
| "num_div (Fin x) _ = Fin 0"
| "num_div a (Fin y) = inf_of_sign (num_sign a * (if y < 0 then - 1 else 1))"
| "num_div _ _ = NaN"

text \<open>\<^verbatim>\<open>a > b\<close>: false as soon as one side is \<^verbatim>\<open>NaN\<close>.\<close>

fun num_gt :: "number \<Rightarrow> number \<Rightarrow> bool" where
  "num_gt NaN _ = False"
| "num_gt _ NaN = False"
| "num_gt (Fin x) (Fin y) = (y < x)"
| "num_gt PosInf b = (b \<noteq> PosInf)"
| "num_gt _ PosInf = False"
| "num_gt NegInf _ = False"
| "num_gt _ NegInf = True"

fun isFinite :: "number \<Rightarrow> bool" where
  "isFinite (Fin _) = True"
| "isFinite _ = False"

subsection \<open>\<^verbatim>\<open>Number.parseFloat\<close>\<close>

text \<open>
  The built-in of ECMA-262: leading white space is dropped, then the longest prefix
  that is a \<^verbatim>\<open>StrDecimalLiteral\<close> is read (an optional sign, then \<^verbatim>\<open>Infinity\<close> or
  digits with an optional fraction and an optional exponent); what follows the prefix is
  ignored, and the result is \<^verbatim>\<open>NaN\<close> when there is no such prefix. The value of
  the literal is rounded to the nearest double. A character is a code unit below 256
  here, so of the white space the ASCII characters and the no-break space are
  recognised, and the white space beyond that range cannot occur.
\<close>

definition isWhiteSpace :: "char \<Rightarrow> bool" where
  "isWhiteSpace c = (of_char c \<in> {9, 10, 11, 12, 13, 32, 160 :: nat})"

definition isDigit :: "char \<Rightarrow> bool" where
  "isDigit c = (48 \<le> (of_char c :: nat) \<and> (of_char c :: nat) \<le> 57)"

definition digitValue :: "char \<Rightarrow> nat" where
  "digitValue c = of_char c - 48"

definition decimalValue :: "string \<Rightarrow> nat" where
  "decimalValue ds = foldl (\<lambda>a c. 10 * a + digitValue c) 0 ds"

text \<open>The exponent part: \<^verbatim>\<open>e\<close> or \<^verbatim>\<open>E\<close>, an optional sign and at least one digit;
  anything else is no exponent and the mantissa stands alone.\<close>

definition exponentPart :: "string \<Rightarrow> int" where
  "exponentPart r =
     (case r of
        [] \<Rightarrow> 0
      | c # r1 \<Rightarrow>
          if c = CHR ''e'' \<or> c = CHR ''E'' then
            (case r1 of
               [] \<Rightarrow> 0
             | d # r2 \<Rightarrow>
                 if d = CHR ''-'' then
                   (if takeWhile isDigit r2 = [] then 0
                    else - int (decimalValue (takeWhile isDigit r2)))
                 else if d = CHR ''+'' then int (decimalValue (takeWhile isDigit r2))
                 else int (decimalValue (takeWhile isDigit r1)))
          else 0)"

text \<open>The exact value of the mantissa times the power of ten; it is rounded afterwards.\<close>

definition scale10 :: "real \<Rightarrow> int \<Rightarrow> real" where
  "scale10 x e = (if 0 \<le> e then x * 10 ^ nat e else x / 10 ^ nat (- e))"

definition unsignedLiteral :: "string \<Rightarrow> number" where
  "unsignedLiteral r =
     (if take 8 r = ''Infinity'' then PosInf
      else
        let ip = takeWhile isDigit r;
            r1 = dropWhile isDigit r;
            fp = (case r1 of [] \<Rightarrow> [] | c # r2 \<Rightarrow> if c = CHR ''.'' then takeWhile isDigit r2 else []);
            r3 = (case r1 of [] \<Rightarrow> [] | c # r2 \<Rightarrow> if c = CHR ''.'' then dropWhile isDigit r2 else r1)
        in if ip = [] \<and> fp = [] then NaN
           else double (scale10 (real (decimalValue ip) + real (decimalValue fp) / 10 ^ length fp)
                                (exponentPart r3)))"

definition parseFloat :: "string \<Rightarrow> number" where
  "parseFloat s =
     (case dropWhile isWhiteSpace s of
        [] \<Rightarrow> NaN
      | c # r \<Rightarrow>
          if c = CHR ''-'' then num_neg (unsignedLiteral r)
          else if c = CHR ''+'' then unsignedLiteral r
          else unsignedLiteral (c # r))"

subsection \<open>Wallet records\<close>

datatype network = Ethereum | Bnb

record token =
  t_symbol :: string
  t_name :: string
  t_balance :: number
  t_balanceUSD :: number
  t_price :: number
  t_change24h :: number

datatype direction = Send | Receive

datatype tx_status = Pending | Confirmed | Failed

record transaction =
  tx_id :: string
  tx_type :: direction
  tx_amount :: number
  tx_symbol :: string
  tx_to :: "string option"
  tx_from :: "string option"
  tx_timestamp :: number
  tx_status :: tx_status
  tx_hash :: string

text \<open>
  The wallet type of the account database: the fields of the \<^verbatim>\<open>Wallet\<close> interface
  (lines 71-82) and the two optional fields that \<^verbatim>\<open>handleCreateWallet\<close> sets (lines
  261-262). An optional field is \<open>None\<close> when it is absent or \<^verbatim>\<open>undefined\<close>. The
  type \<open>'blob\<close> is what \<^verbatim>\<open>encryptPrivateKey\<close> returns; this page never looks inside it.
\<close>

record 'blob wallet =
  wallet_id :: string
  name :: string
  address :: string
  network :: network
  balance :: number
  balanceUSD :: number
  change24h :: number
  changePercent24h :: number
  tokens :: "token list"
  transactions :: "transaction list"
  encryptedPrivateKey :: "'blob option"
  encryptedMnemonic :: "'blob option"

section \<open>Portfolio totals\<close>

text \<open>
  Lines 139-141. \<^verbatim>\<open>reduce\<close> with an initial value is a left fold.
\<close>

definition totalBalance :: "'blob wallet list \<Rightarrow> number" where
  "totalBalance ws = foldl (\<lambda>sum w. num_add sum (balanceUSD w)) (Fin 0) ws"

definition totalChange :: "'blob wallet list \<Rightarrow> number" where
  "totalChange ws = foldl (\<lambda>sum w. num_add sum (change24h w)) (Fin 0) ws"

definition totalChangePercent :: "'blob wallet list \<Rightarrow> number" where
  "totalChangePercent ws =
     (if num_gt (totalBalance ws) (Fin 0)
      then num_mul (num_div (totalChange ws) (num_sub (totalBalance ws) (totalChange ws))) (Fin 100)
      else Fin 0)"

text \<open>
  The sum as the specification writes it, \<open>\<Sigma>\<close> over the records in their order:
  the sum of no terms is \<open>0\<close>, and the sum of \<open>n\<close> terms is the sum of the first
  \<open>n - 1\<close> plus the last. With rounding the order matters, so the terms are not
  regrouped.
\<close>

function num_sum :: "number list \<Rightarrow> number" where
  "num_sum xs = (if xs = [] then Fin 0 else num_add (num_sum (butlast xs)) (last xs))"
  by pat_completeness auto
termination
  by (relation "measure length") auto

declare num_sum.simps [simp del]

section \<open>The page state and its environment\<close>

text \<open>
  What a \<^verbatim>\<open>throw\<close> or a rejected promise carries: an \<^verbatim>\<open>Error\<close> with its message, or
  any other value (the handler only asks \<^verbatim>\<open>error instanceof Error\<close>).
\<close>

datatype thrown = Error string | NonError

text \<open>The response of \<^verbatim>\<open>cryptoWebApiClient.createWallet\<close>, as far as the page reads it.\<close>

record response =
  r_address :: string
  r_key :: "string option"
  r_mnemonic :: "string option"

text \<open>A string-valued expression in a condition: \<^verbatim>\<open>undefined\<close> and \<^verbatim>\<open>""\<close> are falsy.\<close>

fun truthy :: "string option \<Rightarrow> bool" where
  "truthy None = False"
| "truthy (Some v) = (v \<noteq> [])"

record newWalletForm =
  nw_name :: string
  nw_address :: string
  nw_network :: network
  nw_balance :: string
  nw_balanceUSD :: string

record createWalletForm =
  cw_name :: string
  cw_network :: network
  cw_passphrase :: string

record newlyCreated =
  nc_address :: string
  nc_privateKey :: string
  nc_mnemonic :: "string option"
  nc_network :: network
  nc_name :: string

text \<open>
  The calls the handlers make to the world outside the component, in the order they
  are made, so that "no Store call" and "no encryption" can be said of a run.
\<close>

datatype 'blob effect =
    ProviderCall network
  | SealCall string string
  | StoreCall "'blob wallet"
  | ConsoleLog response
  | ConsoleError string thrown
  | Alert string

text \<open>
  The imported functions are not part of this file and are parameters of the model:
  \<^item> \<open>createWallet\<close>: the remote provider, which answers or throws;
  \<^item> \<open>encryptPrivateKey\<close>: the cipher of \<^verbatim>\<open>@/lib/crypto\<close>. Its first argument counts
    the earlier calls of the same run, so that two calls on equal arguments may differ
    (a cipher that draws a fresh salt), then the plaintext and the passphrase;
  \<^item> \<open>saveWallet\<close>: the store of \<^verbatim>\<open>@/lib/accountDb\<close>, from the database contents and a
    record to the new contents, or a throw that leaves the contents as they were;
  \<^item> \<open>now\<close>: what \<^verbatim>\<open>Date.now()\<close> returns, in milliseconds.
\<close>

record ('db, 'blob) env =
  createWallet :: "network \<Rightarrow> thrown + response"
  encryptPrivateKey :: "nat \<Rightarrow> string \<Rightarrow> string \<Rightarrow> thrown + 'blob"
  saveWallet :: "'db \<Rightarrow> 'blob wallet \<Rightarrow> thrown + 'db"
  now :: nat

text \<open>
  The component's state (lines 87-136) with the database it writes to. \<open>db\<close> is
  \<open>None\<close> while the account store has no open database (\<^verbatim>\<open>!db\<close>).
\<close>

record ('db, 'blob) state =
  db :: "'db option"
  wallets :: "'blob wallet list"
  showAddModal :: bool
  showCreateModal :: bool
  showSuccessModal :: bool
  newlyCreatedWallet :: "newlyCreated option"
  newWalletForm :: newWalletForm
  createWalletForm :: createWalletForm
  isCreatingWallet :: bool
  effects :: "'blob effect list"

definition emit :: "'blob effect \<Rightarrow> ('db, 'blob) state \<Rightarrow> ('db, 'blob) state" where
  "emit e s = s\<lparr>effects := effects s @ [e]\<rparr>"

fun storeCalls :: "'blob effect list \<Rightarrow> 'blob wallet list" where
  "storeCalls [] = []"
| "storeCalls (StoreCall w # es) = w # storeCalls es"
| "storeCalls (_ # es) = storeCalls es"

fun sealCalls :: "'blob effect list \<Rightarrow> (string \<times> string) list" where
  "sealCalls [] = []"
| "sealCalls (SealCall p pw # es) = (p, pw) # sealCalls es"
| "sealCalls (_ # es) = sealCalls es"

fun alerts :: "'blob effect list \<Rightarrow> string list" where
  "alerts [] = []"
| "alerts (Alert m # es) = m # alerts es"
| "alerts (_ # es) = alerts es"

fun consoleErrors :: "'blob effect list \<Rightarrow> (string \<times> thrown) list" where
  "consoleErrors [] = []"
| "consoleErrors (ConsoleError m e # es) = (m, e) # consoleErrors es"
| "consoleErrors (_ # es) = consoleErrors es"

subsection \<open>Identifiers\<close>

text \<open>\<^verbatim>\<open>Date.now().toString()\<close>: the decimal digits of the millisecond count.\<close>

definition digitChar :: "nat \<Rightarrow> char" where
  "digitChar d = ''0123456789'' ! d"

fun toString :: "nat \<Rightarrow> string" where
  "toString n =
     (if n < 10 then [digitChar n]
      else toString (n div 10) @ [digitChar (n mod 10)])"

declare toString.simps [simp del]

section \<open>Adding a wallet by hand\<close>

text \<open>The object literal of lines 178-189. A manual wallet has no encrypted field.\<close>

definition newWallet :: "nat \<Rightarrow> newWalletForm \<Rightarrow> 'blob wallet" where
  "newWallet t f =
     \<lparr> wallet_id = toString t,
       name = nw_name f,
       address = nw_address f,
       network = nw_network f,
       balance = parseFloat (nw_balance f),
       balanceUSD = parseFloat (nw_balanceUSD f),
       change24h = Fin 0,
       changePercent24h = Fin 0,
       tokens = [],
       transactions = [],
       encryptedPrivateKey = None,
       encryptedMnemonic = None \<rparr>"

definition emptyNewWalletForm :: newWalletForm where
  "emptyNewWalletForm =
     \<lparr> nw_name = [], nw_address = [], nw_network = Ethereum, nw_balance = [], nw_balanceUSD = [] \<rparr>"

text \<open>
  \<^verbatim>\<open>handleAddWallet\<close>, lines 168-208. The guard returns without a word when a text
  field is empty or no database is open; the two balances are then parsed and used as
  they come; a throw of \<^verbatim>\<open>saveWallet\<close> is caught and only written to the console.
\<close>

definition handleAddWallet :: "('db, 'blob) env \<Rightarrow> ('db, 'blob) state \<Rightarrow> ('db, 'blob) state" where
  "handleAddWallet env s =
     (let f = newWalletForm s in
      if nw_name f = [] \<or> nw_address f = [] \<or> nw_balance f = [] \<or> nw_balanceUSD f = [] then s
      else
        (case db s of
           None \<Rightarrow> s
         | Some d \<Rightarrow>
             let w = newWallet (now env) f;
                 s1 = emit (StoreCall w) s
             in (case saveWallet env d w of
                   Inr d' \<Rightarrow>
                     s1\<lparr> db := Some d',
                         wallets := wallets s @ [w],
                         showAddModal := False,
                         newWalletForm := emptyNewWalletForm \<rparr>
                 | Inl e \<Rightarrow> emit (ConsoleError ''Error saving wallet:'' e) s1)))"

section \<open>Creating a wallet through the provider\<close>

text \<open>The error thrown at line 237 when the response has no usable key.\<close>

definition missingKeyError :: thrown where
  "missingKeyError = Error ''Private key is missing in the wallet creation response''"

text \<open>
  Lines 244-247: the mnemonic is encrypted by a call of its own, the second of the
  run, and only when it is truthy; otherwise the field stays \<^verbatim>\<open>undefined\<close>.
\<close>

definition sealMnemonic :: "('db, 'blob) env \<Rightarrow> response \<Rightarrow> string \<Rightarrow> thrown + 'blob option" where
  "sealMnemonic env r pw =
     (case r_mnemonic r of
        None \<Rightarrow> Inr None
      | Some m \<Rightarrow>
          if m = [] then Inr None
          else (case encryptPrivateKey env 1 m pw of
                  Inl e \<Rightarrow> Inl e
                | Inr b \<Rightarrow> Inr (Some b)))"

text \<open>The object literal of lines 250-263.\<close>

definition walletData ::
  "nat \<Rightarrow> createWalletForm \<Rightarrow> response \<Rightarrow> 'blob \<Rightarrow> 'blob option \<Rightarrow> 'blob wallet" where
  "walletData t f r bk bm =
     \<lparr> wallet_id = toString t,
       name = cw_name f,
       address = r_address r,
       network = cw_network f,
       balance = Fin 0,
       balanceUSD = Fin 0,
       change24h = Fin 0,
       changePercent24h = Fin 0,
       tokens = [],
       transactions = [],
       encryptedPrivateKey = Some bk,
       encryptedMnemonic = bm \<rparr>"

definition emptyCreateWalletForm :: createWalletForm where
  "emptyCreateWalletForm = \<lparr> cw_name = [], cw_network = Ethereum, cw_passphrase = [] \<rparr>"

text \<open>
  The body of the \<^verbatim>\<open>try\<close> block, lines 229-289: \<open>Inr\<close> the state at its end, or
  \<open>Inl\<close> the thrown value with the state at the throw.
\<close>

definition createWalletTry ::
  "('db, 'blob) env \<Rightarrow> 'db \<Rightarrow> ('db, 'blob) state \<Rightarrow> thrown \<times> ('db, 'blob) state + ('db, 'blob) state" where
  "createWalletTry env d s =
     (let f = createWalletForm s;
          s1 = emit (ProviderCall (cw_network f)) s
      in case createWallet env (cw_network f) of
           Inl e \<Rightarrow> Inl (e, s1)
         | Inr r \<Rightarrow>
             if \<not> truthy (r_key r) then Inl (missingKeyError, emit (ConsoleLog r) s1)
             else
               let k = the (r_key r);
                   s2 = emit (SealCall k (cw_passphrase f)) s1
               in case encryptPrivateKey env 0 k (cw_passphrase f) of
                    Inl e \<Rightarrow> Inl (e, s2)
                  | Inr bk \<Rightarrow>
                      let s3 = (if truthy (r_mnemonic r)
                                then emit (SealCall (the (r_mnemonic r)) (cw_passphrase f)) s2
                                else s2)
                      in case sealMnemonic env r (cw_passphrase f) of
                           Inl e \<Rightarrow> Inl (e, s3)
                         | Inr bm \<Rightarrow>
                             let w = walletData (now env) f r bk bm;
                                 s4 = emit (StoreCall w) s3
                             in case saveWallet env d w of
                                  Inl e \<Rightarrow> Inl (e, s4)
                                | Inr d' \<Rightarrow>
                                    Inr (s4\<lparr> db := Some d',
                                             wallets := wallets s @ [w],
                                             newlyCreatedWallet :=
                                               Some \<lparr> nc_address = r_address r,
                                                      nc_privateKey = k,
                                                      nc_mnemonic = r_mnemonic r,
                                                      nc_network = cw_network f,
                                                      nc_name = cw_name f \<rparr>,
                                             showCreateModal := False,
                                             showSuccessModal := True,
                                             createWalletForm := emptyCreateWalletForm \<rparr>))"

text \<open>The text of the alert in the \<^verbatim>\<open>catch\<close> block, line 293.\<close>

definition alertText :: "thrown \<Rightarrow> string" where
  "alertText e = ''Error creating wallet2: '' @ (case e of Error m \<Rightarrow> m | NonError \<Rightarrow> ''Unknown error'')"

text \<open>
  \<^verbatim>\<open>handleCreateWallet\<close>, lines 219-297. The network of the form is one of two
  non-empty strings, so \<^verbatim>\<open>!createWalletForm.network\<close> is never true.
\<close>

definition handleCreateWallet :: "('db, 'blob) env \<Rightarrow> ('db, 'blob) state \<Rightarrow> ('db, 'blob) state" where
  "handleCreateWallet env s =
     (let f = createWalletForm s in
      if cw_name f = [] \<or> cw_passphrase f = [] then s
      else
        (case db s of
           None \<Rightarrow> s
         | Some d \<Rightarrow>
             let s' = (case createWalletTry env d (s\<lparr>isCreatingWallet := True\<rparr>) of
                         Inr s2 \<Rightarrow> s2
                       | Inl (e, s2) \<Rightarrow>
                           emit (Alert (alertText e)) (emit (ConsoleError ''Error creating wallet:'' e) s2))
             in s'\<lparr>isCreatingWallet := False\<rparr>))"

text \<open>The button of the success dialog, lines 922-925.\<close>

definition successConfirm :: "('db, 'blob) state \<Rightarrow> ('db, 'blob) state" where
  "successConfirm s = s\<lparr>showSuccessModal := False, newlyCreatedWallet := None\<rparr>"

text \<open>
  The success dialog is also closed through \<^verbatim>\<open>onOpenChange\<close> (line 825), which is
  \<^verbatim>\<open>setShowSuccessModal\<close> itself.
\<close>

definition successOpenChange :: "bool \<Rightarrow> ('db, 'blob) state \<Rightarrow> ('db, 'blob) state" where
  "successOpenChange b s = s\<lparr>showSuccessModal := b\<rparr>"

section \<open>The store and the stubs of the examples\<close>

text \<open>
  Modelled from the spec: the \<^verbatim>\<open>DuplicateId\<close> failure of the Wallet Record Store's
  \<^verbatim>\<open>insert\<close>, as the value a rejecting \<^verbatim>\<open>saveWallet\<close> would throw.
\<close>

definition duplicateId :: thrown where
  "duplicateId = Error ''DuplicateId''"

text \<open>
  Modelled from the spec: the Wallet Record Store. Its code (\<^verbatim>\<open>saveWallet\<close> and
  \<^verbatim>\<open>getAllWallets\<close> of \<^verbatim>\<open>@/lib/accountDb\<close>) is not among the sources. The
  specification gives \<^verbatim>\<open>insert(record) -> Result<(), DuplicateId>\<close>, atomic, rejecting a
  record whose id is present, and a collection listed in insertion order.
\<close>

definition insert_store :: "'blob wallet list \<Rightarrow> 'blob wallet \<Rightarrow> thrown + 'blob wallet list" where
  "insert_store d w =
     (if wallet_id w \<in> set (map wallet_id d) then Inl duplicateId else Inr (d @ [w]))"

text \<open>
  Modelled from the spec: \<^verbatim>\<open>listAll()\<close>, the snapshot of the collection in insertion
  order.
\<close>

definition listAll :: "'blob wallet list \<Rightarrow> 'blob wallet list" where
  "listAll d = d"

text \<open>
  The provider stub of the specification's end-to-end test, a toy cipher that tags the
  plaintext with the call number and the passphrase, and a clock.
\<close>

definition stubResponse :: response where
  "stubResponse = \<lparr> r_address = ''0xabc'', r_key = Some ''k1'', r_mnemonic = Some ''m1 m2'' \<rparr>"

definition stubCipher :: "nat \<Rightarrow> string \<Rightarrow> string \<Rightarrow> thrown + string" where
  "stubCipher i p pw = Inr (toString i @ '':'' @ pw @ '':'' @ p)"

definition stubEnv :: "response \<Rightarrow> (string wallet list, string) env" where
  "stubEnv r =
     \<lparr> createWallet = (\<lambda>_. Inr r),
       encryptPrivateKey = stubCipher,
       saveWallet = insert_store,
       now = 1000 \<rparr>"

definition initialState :: "(string wallet list, string) state" where
  "initialState =
     \<lparr> db = Some [],
       wallets = [],
       showAddModal = False,
       showCreateModal = False,
       showSuccessModal = False,
       newlyCreatedWallet = None,
       newWalletForm = emptyNewWalletForm,
       createWalletForm = emptyCreateWalletForm,
       isCreatingWallet = False,
       effects = [] \<rparr>"

text \<open>A tracked wallet with a given fiat balance and 24-hour change, for the examples.\<close>

definition trackedWallet :: "number \<Rightarrow> number \<Rightarrow> string wallet" where
  "trackedWallet usd chg =
     \<lparr> wallet_id = ''1'', name = ''W'', address = ''0x1'', network = Ethereum,
       balance = Fin 1, balanceUSD = usd, change24h = chg, changePercent24h = Fin 0,
       tokens = [], transactions = [], encryptedPrivateKey = None, encryptedMnemonic = None \<rparr>"

text \<open>
  The inputs of the examples: the create form and the manual form of the
  specification's end-to-end tests, the page with one of them filled in, and a page
  whose database already holds a record with the identifier that the stub clock gives.
\<close>

definition createForm :: createWalletForm where
  "createForm = \<lparr> cw_name = ''W1'', cw_network = Ethereum, cw_passphrase = ''pw123'' \<rparr>"

definition manualForm :: "string \<Rightarrow> string \<Rightarrow> newWalletForm" where
  "manualForm bal usd =
     \<lparr> nw_name = ''W2'', nw_address = ''0xdef'', nw_network = Bnb, nw_balance = bal, nw_balanceUSD = usd \<rparr>"

definition createState :: "(string wallet list, string) state" where
  "createState = initialState\<lparr>createWalletForm := createForm\<rparr>"

definition manualState :: "string \<Rightarrow> string \<Rightarrow> (string wallet list, string) state" where
  "manualState bal usd = initialState\<lparr>newWalletForm := manualForm bal usd\<rparr>"

definition dupState :: "(string wallet list, string) state" where
  "dupState =
     initialState\<lparr> db := Some [(trackedWallet (Fin 100) (Fin 0))\<lparr>wallet_id := ''1000''\<rparr>],
                   wallets := [(trackedWallet (Fin 100) (Fin 0))\<lparr>wallet_id := ''1000''\<rparr>],
                   createWalletForm := createForm \<rparr>"

text \<open>
  A page that already lists two wallets, with the manual form or the create form filled
  in.
\<close>

definition heldWallets :: "string wallet list" where
  "heldWallets = [trackedWallet (Fin 100) (Fin 10), (trackedWallet (Fin 250) (Fin (- 5)))\<lparr>wallet_id := ''2''\<rparr>]"

definition heldManualState :: "(string wallet list, string) state" where
  "heldManualState =
     initialState\<lparr> db := Some heldWallets, wallets := heldWallets,
                   newWalletForm := manualForm ''1.5'' ''300.00'' \<rparr>"

definition heldCreateState :: "(string wallet list, string) state" where
  "heldCreateState =
     initialState\<lparr> db := Some heldWallets, wallets := heldWallets, createWalletForm := createForm \<rparr>"

section \<open>Properties of the portfolio totals\<close>

lemmas double_eval = double_def scaleDown.simps scaleUp.simps scale2_def roundHalfEven_def Let_def

lemma num_sum_Nil: "num_sum [] = Fin 0"
  by (simp add: num_sum.simps)

lemma num_sum_snoc: "num_sum (xs @ [x]) = num_add (num_sum xs) x"
  by (subst num_sum.simps) simp

lemma foldl_num_add: "foldl (\<lambda>sum w. num_add sum (f w)) (Fin 0) ws = num_sum (map f ws)"
  by (induction ws rule: rev_induct) (simp_all add: num_sum_Nil num_sum_snoc)

lemma totalBalance_sum: "totalBalance ws = num_sum (map balanceUSD ws)"
  by (simp add: totalBalance_def foldl_num_add)

lemma totalChange_sum: "totalChange ws = num_sum (map change24h ws)"
  by (simp add: totalChange_def foldl_num_add)

lemma totalBalance_map: "totalBalance ws = foldl num_add (Fin 0) (map balanceUSD ws)"
  by (simp add: totalBalance_def foldl_map)

lemma totalChange_map: "totalChange ws = foldl num_add (Fin 0) (map change24h ws)"
  by (simp add: totalChange_def foldl_map)

text \<open>
  The sums round as the program's do: \<open>10\<^sup>1\<^sup>6 + 1\<close> is a tie and goes back to
  \<open>10\<^sup>1\<^sup>6\<close>, so adding \<open>1\<close> twice changes nothing, while one addition of \<open>2\<close> does.
\<close>

lemma totalBalance_rounds:
  "totalBalance [trackedWallet (Fin 10000000000000000) (Fin 0), trackedWallet (Fin 1) (Fin 0),
                 trackedWallet (Fin 1) (Fin 0)] = Fin 10000000000000000"
  "totalBalance [trackedWallet (Fin 10000000000000000) (Fin 0), trackedWallet (Fin 2) (Fin 0)]
     = Fin 10000000000000002"
  by (simp_all add: totalBalance_def trackedWallet_def double_eval)

lemma double_examples:
  "parseFloat ''0.1'' = Fin (3602879701896397 / 36028797018963968)"
  "num_add (Fin (2 ^ 1023)) (Fin (2 ^ 1023)) = PosInf"
  by (simp_all add: parseFloat_def unsignedLiteral_def isDigit_def isWhiteSpace_def
      decimalValue_def digitValue_def exponentPart_def scale10_def double_eval)

text \<open>
  Claim C3. For every list of wallet records the total value is the sum of the
  \<^verbatim>\<open>balanceUSD\<close> fields, the total change is the sum of the \<^verbatim>\<open>change24h\<close> fields, and
  the percentage is \<open>totalChange / (totalValue - totalChange) * 100\<close> when the total
  value is greater than zero and \<open>0\<close> otherwise, all in the arithmetic of doubles and
  with the sums taken in the order of the list. For the balances \<open>[100, 250]\<close> and the
  changes \<open>[10, -5]\<close> this gives \<open>350\<close>, \<open>5\<close> and \<open>5 / 345 * 100\<close>, which is the
  double \<open>6526955981696371 / 2\<^sup>5\<^sup>2\<close>, printed as \<^verbatim>\<open>1.4492753623188406\<close>.
\<close>

theorem aggregate_formula:
  "totalBalance ws = num_sum (map balanceUSD ws) \<and>
   totalChange ws = num_sum (map change24h ws) \<and>
   totalChangePercent ws =
     (if num_gt (num_sum (map balanceUSD ws)) (Fin 0)
      then num_mul (num_div (num_sum (map change24h ws))
                            (num_sub (num_sum (map balanceUSD ws)) (num_sum (map change24h ws))))
                   (Fin 100)
      else Fin 0) \<and>
   (map balanceUSD ws = [Fin 100, Fin 250] \<and> map change24h ws = [Fin 10, Fin (- 5)] \<longrightarrow>
      totalBalance ws = Fin 350 \<and> totalChange ws = Fin 5 \<and>
      totalChangePercent ws = num_mul (num_div (Fin 5) (num_sub (Fin 350) (Fin 5))) (Fin 100) \<and>
      totalChangePercent ws = Fin (6526955981696371 / 4503599627370496))"
proof -
  have pct: "totalChangePercent ws =
     (if num_gt (num_sum (map balanceUSD ws)) (Fin 0)
      then num_mul (num_div (num_sum (map change24h ws))
                            (num_sub (num_sum (map balanceUSD ws)) (num_sum (map change24h ws))))
                   (Fin 100)
      else Fin 0)"
    by (simp only: totalChangePercent_def totalBalance_sum totalChange_sum)
  have ex: "map balanceUSD ws = [Fin 100, Fin 250] \<and> map change24h ws = [Fin 10, Fin (- 5)] \<longrightarrow>
      totalBalance ws = Fin 350 \<and> totalChange ws = Fin 5 \<and>
      totalChangePercent ws = num_mul (num_div (Fin 5) (num_sub (Fin 350) (Fin 5))) (Fin 100) \<and>
      totalChangePercent ws = Fin (6526955981696371 / 4503599627370496)"
  proof
    assume h: "map balanceUSD ws = [Fin 100, Fin 250] \<and> map change24h ws = [Fin 10, Fin (- 5)]"
    have b: "totalBalance ws = Fin 350"
      using h by (simp add: totalBalance_map double_eval)
    have c: "totalChange ws = Fin 5"
      using h by (simp add: totalChange_map double_eval)
    have p: "totalChangePercent ws = num_mul (num_div (Fin 5) (num_sub (Fin 350) (Fin 5))) (Fin 100)"
      by (simp add: totalChangePercent_def b c)
    have s: "num_sub (Fin 350) (Fin 5) = Fin 345"
      by (simp add: num_sub_def double_eval)
    have q: "num_div (Fin 5) (Fin 345) = Fin (8354503656571355 / 576460752303423488)"
      by (simp add: double_eval)
    have v: "num_mul (Fin (8354503656571355 / 576460752303423488)) (Fin 100)
               = Fin (6526955981696371 / 4503599627370496)"
      by (simp add: double_eval)
    from b c p s q v show "totalBalance ws = Fin 350 \<and> totalChange ws = Fin 5 \<and>
      totalChangePercent ws = num_mul (num_div (Fin 5) (num_sub (Fin 350) (Fin 5))) (Fin 100) \<and>
      totalChangePercent ws = Fin (6526955981696371 / 4503599627370496)"
      by simp
  qed
  show ?thesis
    by (rule conjI [OF totalBalance_sum conjI [OF totalChange_sum conjI [OF pct ex]]])
qed

theorem aggregate_formula_witness:
  "map balanceUSD [trackedWallet (Fin 100) (Fin 10), trackedWallet (Fin 250) (Fin (- 5))] = [Fin 100, Fin 250] \<and>
   map change24h [trackedWallet (Fin 100) (Fin 10), trackedWallet (Fin 250) (Fin (- 5))] = [Fin 10, Fin (- 5)] \<and>
   totalBalance [trackedWallet (Fin 100) (Fin 10), trackedWallet (Fin 250) (Fin (- 5))] = Fin 350 \<and>
   totalChange [trackedWallet (Fin 100) (Fin 10), trackedWallet (Fin 250) (Fin (- 5))] = Fin 5 \<and>
   totalChangePercent [trackedWallet (Fin 100) (Fin 10), trackedWallet (Fin 250) (Fin (- 5))]
     = Fin (6526955981696371 / 4503599627370496)"
proof -
  let ?ws = "[trackedWallet (Fin 100) (Fin 10), trackedWallet (Fin 250) (Fin (- 5))]"
  have h1: "map balanceUSD ?ws = [Fin 100, Fin 250]" by (simp add: trackedWallet_def)
  have h2: "map change24h ?ws = [Fin 10, Fin (- 5)]" by (simp add: trackedWallet_def)
  from aggregate_formula [of ?ws] h1 h2
  have "totalBalance ?ws = Fin 350 \<and> totalChange ?ws = Fin 5 \<and>
        totalChangePercent ?ws = Fin (6526955981696371 / 4503599627370496)"
    by blast
  with h1 h2 show ?thesis by blast
qed

text \<open>
  Claim C6. For the empty wallet list the total value, the total change and the
  percentage are all \<open>0\<close>; the guard \<open>totalBalance > 0\<close> is false there, so the branch
  with the division is not taken.
\<close>

theorem aggregate_empty:
  "totalBalance [] = Fin 0 \<and> totalChange [] = Fin 0 \<and> totalChangePercent [] = Fin 0 \<and>
   \<not> num_gt (totalBalance []) (Fin 0)"
  by (simp add: totalBalance_def totalChange_def totalChangePercent_def)

text \<open>
  Claim C9. There is a wallet list whose total value is greater than zero and whose
  total change equals the total value: the guard lets it through, the divisor
  \<open>totalValue - totalChange\<close> is zero, and neither the quotient nor the percentage is a
  finite number (one wallet with \<^verbatim>\<open>balanceUSD = change24h = 100\<close> gives \<^verbatim>\<open>Infinity\<close>).
\<close>

theorem percent_undefined_when_change_is_total:
  "\<exists>ws :: string wallet list.
     num_gt (totalBalance ws) (Fin 0) \<and> totalChange ws = totalBalance ws \<and>
     num_sub (totalBalance ws) (totalChange ws) = Fin 0 \<and>
     \<not> isFinite (num_div (totalChange ws) (num_sub (totalBalance ws) (totalChange ws))) \<and>
     \<not> isFinite (totalChangePercent ws)"
proof -
  have b: "totalBalance [trackedWallet (Fin 100) (Fin 100)] = Fin 100"
    by (simp add: totalBalance_def trackedWallet_def double_eval)
  have c: "totalChange [trackedWallet (Fin 100) (Fin 100)] = Fin 100"
    by (simp add: totalChange_def trackedWallet_def double_eval)
  have s: "num_sub (Fin 100) (Fin 100) = Fin 0"
    by (simp add: num_sub_def double_def)
  have p: "totalChangePercent [trackedWallet (Fin 100) (Fin 100)] = PosInf"
    by (simp add: totalChangePercent_def b c s inf_of_sign_def)
  show ?thesis
    by (intro exI [of _ "[trackedWallet (Fin 100) (Fin 100)]"]) (simp add: b c s p inf_of_sign_def)
qed

section \<open>Properties of the handlers\<close>

subsection \<open>The effect log and the branches of the handlers\<close>

lemma storeCalls_append: "storeCalls (xs @ ys) = storeCalls xs @ storeCalls ys"
  by (induction xs rule: storeCalls.induct) simp_all

lemma sealCalls_append: "sealCalls (xs @ ys) = sealCalls xs @ sealCalls ys"
  by (induction xs rule: sealCalls.induct) simp_all

lemma alerts_append: "alerts (xs @ ys) = alerts xs @ alerts ys"
  by (induction xs rule: alerts.induct) simp_all

lemma consoleErrors_append: "consoleErrors (xs @ ys) = consoleErrors xs @ consoleErrors ys"
  by (induction xs rule: consoleErrors.induct) simp_all

lemmas effects_append = storeCalls_append sealCalls_append alerts_append consoleErrors_append

lemma handleAddWallet_guard:
  assumes "nw_name (newWalletForm s) = [] \<or> nw_address (newWalletForm s) = [] \<or>
           nw_balance (newWalletForm s) = [] \<or> nw_balanceUSD (newWalletForm s) = [] \<or> db s = None"
  shows "handleAddWallet env s = s"
  using assms by (auto simp: handleAddWallet_def Let_def)

lemma handleAddWallet_saved:
  assumes "nw_name (newWalletForm s) \<noteq> []" and "nw_address (newWalletForm s) \<noteq> []"
    and "nw_balance (newWalletForm s) \<noteq> []" and "nw_balanceUSD (newWalletForm s) \<noteq> []"
    and "db s = Some d"
    and "saveWallet env d (newWallet (now env) (newWalletForm s)) = Inr d'"
  shows "handleAddWallet env s =
           s\<lparr> effects := effects s @ [StoreCall (newWallet (now env) (newWalletForm s))],
              db := Some d',
              wallets := wallets s @ [newWallet (now env) (newWalletForm s)],
              showAddModal := False,
              newWalletForm := emptyNewWalletForm \<rparr>"
  using assms by (simp add: handleAddWallet_def Let_def emit_def)

lemma handleAddWallet_failed:
  assumes "nw_name (newWalletForm s) \<noteq> []" and "nw_address (newWalletForm s) \<noteq> []"
    and "nw_balance (newWalletForm s) \<noteq> []" and "nw_balanceUSD (newWalletForm s) \<noteq> []"
    and "db s = Some d"
    and "saveWallet env d (newWallet (now env) (newWalletForm s)) = Inl e"
  shows "handleAddWallet env s =
           s\<lparr> effects := effects s @ [StoreCall (newWallet (now env) (newWalletForm s)),
                                       ConsoleError ''Error saving wallet:'' e] \<rparr>"
  using assms by (simp add: handleAddWallet_def Let_def emit_def)

lemma handleCreateWallet_guard:
  assumes "cw_name (createWalletForm s) = [] \<or> cw_passphrase (createWalletForm s) = [] \<or> db s = None"
  shows "handleCreateWallet env s = s"
  using assms by (auto simp: handleCreateWallet_def Let_def)

lemma sealMnemonic_cases:
  "sealMnemonic env r pw = Inr bm \<Longrightarrow>
     (bm \<noteq> None) = truthy (r_mnemonic r) \<and>
     (truthy (r_mnemonic r) \<longrightarrow> encryptPrivateKey env 1 (the (r_mnemonic r)) pw = Inr (the bm))"
  by (auto simp: sealMnemonic_def split: option.splits if_splits sum.splits)

lemma handleCreateWallet_saved:
  assumes "db s = Some d"
    and "cw_name (createWalletForm s) \<noteq> []" and "cw_passphrase (createWalletForm s) \<noteq> []"
    and "createWallet env (cw_network (createWalletForm s)) = Inr r"
    and "r_key r = Some k" and "k \<noteq> []"
    and "encryptPrivateKey env 0 k (cw_passphrase (createWalletForm s)) = Inr bk"
    and "sealMnemonic env r (cw_passphrase (createWalletForm s)) = Inr bm"
    and "saveWallet env d (walletData (now env) (createWalletForm s) r bk bm) = Inr d'"
  shows "handleCreateWallet env s =
           s\<lparr> effects := effects s @
                 ProviderCall (cw_network (createWalletForm s)) #
                 SealCall k (cw_passphrase (createWalletForm s)) #
                 (if truthy (r_mnemonic r)
                  then [SealCall (the (r_mnemonic r)) (cw_passphrase (createWalletForm s))] else []) @
                 [StoreCall (walletData (now env) (createWalletForm s) r bk bm)],
              db := Some d',
              wallets := wallets s @ [walletData (now env) (createWalletForm s) r bk bm],
              newlyCreatedWallet :=
                Some \<lparr> nc_address = r_address r, nc_privateKey = k, nc_mnemonic = r_mnemonic r,
                       nc_network = cw_network (createWalletForm s),
                       nc_name = cw_name (createWalletForm s) \<rparr>,
              showCreateModal := False,
              showSuccessModal := True,
              createWalletForm := emptyCreateWalletForm,
              isCreatingWallet := False \<rparr>"
  using assms by (simp add: handleCreateWallet_def createWalletTry_def Let_def emit_def)

lemma handleCreateWallet_store_failed:
  assumes "db s = Some d"
    and "cw_name (createWalletForm s) \<noteq> []" and "cw_passphrase (createWalletForm s) \<noteq> []"
    and "createWallet env (cw_network (createWalletForm s)) = Inr r"
    and "r_key r = Some k" and "k \<noteq> []"
    and "encryptPrivateKey env 0 k (cw_passphrase (createWalletForm s)) = Inr bk"
    and "sealMnemonic env r (cw_passphrase (createWalletForm s)) = Inr bm"
    and "saveWallet env d (walletData (now env) (createWalletForm s) r bk bm) = Inl e"
  shows "handleCreateWallet env s =
           s\<lparr> effects := effects s @
                 ProviderCall (cw_network (createWalletForm s)) #
                 SealCall k (cw_passphrase (createWalletForm s)) #
                 (if truthy (r_mnemonic r)
                  then [SealCall (the (r_mnemonic r)) (cw_passphrase (createWalletForm s))] else []) @
                 [StoreCall (walletData (now env) (createWalletForm s) r bk bm),
                  ConsoleError ''Error creating wallet:'' e,
                  Alert (alertText e)],
              isCreatingWallet := False \<rparr>"
  using assms by (simp add: handleCreateWallet_def createWalletTry_def Let_def emit_def)

lemma handleCreateWallet_missing_key:
  assumes "db s = Some d"
    and "cw_name (createWalletForm s) \<noteq> []" and "cw_passphrase (createWalletForm s) \<noteq> []"
    and "createWallet env (cw_network (createWalletForm s)) = Inr r"
    and "\<not> truthy (r_key r)"
  shows "handleCreateWallet env s =
           s\<lparr> effects := effects s @
                 [ProviderCall (cw_network (createWalletForm s)),
                  ConsoleLog r,
                  ConsoleError ''Error creating wallet:'' missingKeyError,
                  Alert (alertText missingKeyError)],
              isCreatingWallet := False \<rparr>"
  using assms by (simp add: handleCreateWallet_def createWalletTry_def Let_def emit_def)

lemmas stub_defs = stubEnv_def stubResponse_def stubCipher_def initialState_def createForm_def
  manualForm_def createState_def manualState_def dupState_def emptyNewWalletForm_def
  emptyCreateWalletForm_def insert_store_def trackedWallet_def digitChar_def toString.simps sealMnemonic_def
  walletData_def newWallet_def

lemmas parse_defs = parseFloat_def unsignedLiteral_def isDigit_def isWhiteSpace_def
  decimalValue_def digitValue_def exponentPart_def scale10_def double_eval

subsection \<open>Generated wallets\<close>

text \<open>
  Claim C1. For every creation request in which the provider returns a usable (truthy)
  key, and in which neither the cipher nor the store throws, \<^verbatim>\<open>handleCreateWallet\<close>
  hands exactly one record to the store and appends that record to the wallet list.
  Its address is the provider's, its balance, \<^verbatim>\<open>balanceUSD\<close>, \<^verbatim>\<open>change24h\<close> and
  \<^verbatim>\<open>changePercent24h\<close> are zero, its tokens and transactions are empty, its
  \<^verbatim>\<open>encryptedPrivateKey\<close> is what the cipher returned for the provider's key under the
  passphrase of the form, and its \<^verbatim>\<open>encryptedMnemonic\<close> is present exactly when the
  provider returned a (truthy) mnemonic, in which case it is the result of a second,
  separate call of the cipher on the mnemonic.
\<close>

theorem createGeneratedWallet_persists_record:
  assumes "db s = Some d"
    and "cw_name (createWalletForm s) \<noteq> []" and "cw_passphrase (createWalletForm s) \<noteq> []"
    and "createWallet env (cw_network (createWalletForm s)) = Inr r"
    and "r_key r = Some k" and "k \<noteq> []"
    and "encryptPrivateKey env 0 k (cw_passphrase (createWalletForm s)) = Inr bk"
    and "sealMnemonic env r (cw_passphrase (createWalletForm s)) = Inr bm"
    and "saveWallet env d (walletData (now env) (createWalletForm s) r bk bm) = Inr d'"
  shows "\<exists>w. wallets (handleCreateWallet env s) = wallets s @ [w] \<and>
             db (handleCreateWallet env s) = Some d' \<and>
             storeCalls (effects (handleCreateWallet env s)) = storeCalls (effects s) @ [w] \<and>
             address w = r_address r \<and>
             balance w = Fin 0 \<and> balanceUSD w = Fin 0 \<and>
             change24h w = Fin 0 \<and> changePercent24h w = Fin 0 \<and>
             tokens w = [] \<and> transactions w = [] \<and>
             encryptedPrivateKey w = Some bk \<and>
             (encryptedMnemonic w \<noteq> None) = truthy (r_mnemonic r) \<and>
             (truthy (r_mnemonic r) \<longrightarrow>
                encryptPrivateKey env 1 (the (r_mnemonic r)) (cw_passphrase (createWalletForm s))
                  = Inr (the (encryptedMnemonic w))) \<and>
             sealCalls (effects (handleCreateWallet env s)) =
               sealCalls (effects s) @ (k, cw_passphrase (createWalletForm s)) #
                 (if truthy (r_mnemonic r)
                  then [(the (r_mnemonic r), cw_passphrase (createWalletForm s))] else [])"
proof -
  let ?w = "walletData (now env) (createWalletForm s) r bk bm"
  note run = handleCreateWallet_saved [OF assms]
  note mn = sealMnemonic_cases [OF assms(8)]
  have "encryptedMnemonic ?w = bm" by (simp add: walletData_def)
  with mn have m: "(encryptedMnemonic ?w \<noteq> None) = truthy (r_mnemonic r)"
    "truthy (r_mnemonic r) \<longrightarrow>
       encryptPrivateKey env 1 (the (r_mnemonic r)) (cw_passphrase (createWalletForm s))
         = Inr (the (encryptedMnemonic ?w))"
    by simp_all
  show ?thesis
    by (rule exI [of _ ?w]) (use m in \<open>simp add: run effects_append walletData_def\<close>)
qed

theorem createGeneratedWallet_persists_record_witness:
  "db createState = Some [] \<and>
   cw_name (createWalletForm createState) \<noteq> [] \<and>
   cw_passphrase (createWalletForm createState) \<noteq> [] \<and>
   createWallet (stubEnv stubResponse) (cw_network (createWalletForm createState)) = Inr stubResponse \<and>
   r_key stubResponse = Some ''k1'' \<and>
   encryptPrivateKey (stubEnv stubResponse) 0 ''k1'' ''pw123'' = Inr ''0:pw123:k1'' \<and>
   sealMnemonic (stubEnv stubResponse) stubResponse ''pw123'' = Inr (Some ''1:pw123:m1 m2'') \<and>
   (\<exists>w. wallets (handleCreateWallet (stubEnv stubResponse) createState) = [w] \<and>
        db (handleCreateWallet (stubEnv stubResponse) createState) = Some [w] \<and>
        address w = ''0xabc'' \<and> balance w = Fin 0 \<and> balanceUSD w = Fin 0 \<and>
        encryptedPrivateKey w = Some ''0:pw123:k1'' \<and>
        encryptedMnemonic w = Some ''1:pw123:m1 m2'')"
proof -
  let ?E = "stubEnv stubResponse"
  let ?w = "walletData 1000 createForm stubResponse ''0:pw123:k1'' (Some ''1:pw123:m1 m2'')"
  have h1: "db createState = Some []" by (simp add: stub_defs)
  have h2: "cw_name (createWalletForm createState) \<noteq> []" by (simp add: stub_defs)
  have h3: "cw_passphrase (createWalletForm createState) \<noteq> []" by (simp add: stub_defs)
  have h4: "createWallet ?E (cw_network (createWalletForm createState)) = Inr stubResponse"
    by (simp add: stubEnv_def)
  have h5: "r_key stubResponse = Some ''k1''" by (simp add: stub_defs)
  have h6: "''k1'' \<noteq> []" by simp
  have h7: "encryptPrivateKey ?E 0 ''k1'' (cw_passphrase (createWalletForm createState)) = Inr ''0:pw123:k1''"
    by (simp add: stub_defs)
  have h8: "sealMnemonic ?E stubResponse (cw_passphrase (createWalletForm createState))
              = Inr (Some ''1:pw123:m1 m2'')"
    by (simp add: stub_defs)
  have h9: "saveWallet ?E [] (walletData (now ?E) (createWalletForm createState) stubResponse
              ''0:pw123:k1'' (Some ''1:pw123:m1 m2'')) = Inr [?w]"
    by (simp add: stub_defs)
  from createGeneratedWallet_persists_record [OF h1 h2 h3 h4 h5 h6 h7 h8 h9]
  obtain w where w: "wallets (handleCreateWallet ?E createState) = wallets createState @ [w]"
    "db (handleCreateWallet ?E createState) = Some [?w]"
    "storeCalls (effects (handleCreateWallet ?E createState)) = storeCalls (effects createState) @ [w]"
    "address w = r_address stubResponse" "balance w = Fin 0" "balanceUSD w = Fin 0"
    "encryptedPrivateKey w = Some ''0:pw123:k1''"
    "(encryptedMnemonic w \<noteq> None) = truthy (r_mnemonic stubResponse)"
    "truthy (r_mnemonic stubResponse) \<longrightarrow>
       encryptPrivateKey ?E 1 (the (r_mnemonic stubResponse)) (cw_passphrase (createWalletForm createState))
         = Inr (the (encryptedMnemonic w))"
    by blast
  have wl: "wallets (handleCreateWallet ?E createState) = [w]"
    using w(1) by (simp add: stub_defs)
  have "wallets (handleCreateWallet ?E createState) = [?w]"
    by (simp add: handleCreateWallet_saved [OF h1 h2 h3 h4 h5 h6 h7 h8 h9]) (simp add: stub_defs)
  with wl have weq: "w = ?w" by simp
  have mn: "encryptedMnemonic w = Some ''1:pw123:m1 m2''"
    using w(8,9) by (auto simp: stub_defs)
  show ?thesis
    using h1 h2 h3 h4 h5 h7 h8 wl w(2,4,5,6,7) mn weq
    by (simp add: stub_defs)
qed

lemma alertText_inj: "alertText e = alertText missingKeyError \<Longrightarrow> e = missingKeyError"
  by (cases e) (simp_all add: alertText_def missingKeyError_def)

text \<open>
  Claim C2. For every creation request in which the provider's response has no usable
  key (the field is absent or empty), \<^verbatim>\<open>handleCreateWallet\<close> throws the error
  "Private key is missing in the wallet creation response" and shows it in an alert;
  no other thrown value gives that alert text. The cipher is not called, the store is
  not called, and the wallet list and the database are as before.
\<close>

theorem missing_key_rejected:
  assumes "db s = Some d"
    and "cw_name (createWalletForm s) \<noteq> []" and "cw_passphrase (createWalletForm s) \<noteq> []"
    and "createWallet env (cw_network (createWalletForm s)) = Inr r"
    and "\<not> truthy (r_key r)"
  shows "effects (handleCreateWallet env s) =
           effects s @ [ProviderCall (cw_network (createWalletForm s)), ConsoleLog r,
                        ConsoleError ''Error creating wallet:'' missingKeyError,
                        Alert (alertText missingKeyError)] \<and>
         alertText missingKeyError =
           ''Error creating wallet2: Private key is missing in the wallet creation response'' \<and>
         (\<forall>e. alertText e = alertText missingKeyError \<longrightarrow> e = missingKeyError) \<and>
         alerts (effects (handleCreateWallet env s)) = alerts (effects s) @ [alertText missingKeyError] \<and>
         sealCalls (effects (handleCreateWallet env s)) = sealCalls (effects s) \<and>
         storeCalls (effects (handleCreateWallet env s)) = storeCalls (effects s) \<and>
         wallets (handleCreateWallet env s) = wallets s \<and>
         db (handleCreateWallet env s) = db s \<and>
         newlyCreatedWallet (handleCreateWallet env s) = newlyCreatedWallet s"
proof -
  note run = handleCreateWallet_missing_key [OF assms]
  have msg: "alertText missingKeyError =
           ''Error creating wallet2: Private key is missing in the wallet creation response''"
    by (simp add: alertText_def missingKeyError_def)
  have inj: "\<forall>e. alertText e = alertText missingKeyError \<longrightarrow> e = missingKeyError"
    using alertText_inj by blast
  have rest: "effects (handleCreateWallet env s) =
           effects s @ [ProviderCall (cw_network (createWalletForm s)), ConsoleLog r,
                        ConsoleError ''Error creating wallet:'' missingKeyError,
                        Alert (alertText missingKeyError)]"
    "alerts (effects (handleCreateWallet env s)) = alerts (effects s) @ [alertText missingKeyError]"
    "sealCalls (effects (handleCreateWallet env s)) = sealCalls (effects s)"
    "storeCalls (effects (handleCreateWallet env s)) = storeCalls (effects s)"
    "wallets (handleCreateWallet env s) = wallets s"
    "db (handleCreateWallet env s) = db s"
    "newlyCreatedWallet (handleCreateWallet env s) = newlyCreatedWallet s"
    by (simp_all add: run effects_append)
  from rest msg inj show ?thesis by blast
qed

theorem missing_key_rejected_witness:
  "db createState = Some [] \<and>
   cw_name (createWalletForm createState) \<noteq> [] \<and>
   cw_passphrase (createWalletForm createState) \<noteq> [] \<and>
   createWallet (stubEnv (stubResponse\<lparr>r_key := None\<rparr>)) (cw_network (createWalletForm createState))
     = Inr (stubResponse\<lparr>r_key := None\<rparr>) \<and>
   \<not> truthy (r_key (stubResponse\<lparr>r_key := None\<rparr>)) \<and>
   alerts (effects (handleCreateWallet (stubEnv (stubResponse\<lparr>r_key := None\<rparr>)) createState)) =
     [''Error creating wallet2: Private key is missing in the wallet creation response''] \<and>
   sealCalls (effects (handleCreateWallet (stubEnv (stubResponse\<lparr>r_key := None\<rparr>)) createState)) = [] \<and>
   storeCalls (effects (handleCreateWallet (stubEnv (stubResponse\<lparr>r_key := None\<rparr>)) createState)) = [] \<and>
   wallets (handleCreateWallet (stubEnv (stubResponse\<lparr>r_key := None\<rparr>)) createState) = [] \<and>
   db (handleCreateWallet (stubEnv (stubResponse\<lparr>r_key := None\<rparr>)) createState) = Some []"
proof -
  let ?r = "stubResponse\<lparr>r_key := None\<rparr>"
  have h1: "db createState = Some []" by (simp add: stub_defs)
  have h2: "cw_name (createWalletForm createState) \<noteq> []" by (simp add: stub_defs)
  have h3: "cw_passphrase (createWalletForm createState) \<noteq> []" by (simp add: stub_defs)
  have h4: "createWallet (stubEnv ?r) (cw_network (createWalletForm createState)) = Inr ?r"
    by (simp add: stubEnv_def)
  have h5: "\<not> truthy (r_key ?r)" by simp
  have e: "effects createState = []" "wallets createState = []"
    by (simp_all add: stub_defs)
  show ?thesis
    using missing_key_rejected [OF h1 h2 h3 h4 h5] h1 h2 h3 h4 h5 e by simp
qed

subsection \<open>Manual wallets\<close>

text \<open>
  Claim C4, as amended. For every manual-add request in which the \<^verbatim>\<open>balance\<close> or the
  \<^verbatim>\<open>balanceUSD\<close> field is missing (the empty string), \<^verbatim>\<open>handleAddWallet\<close> returns
  before any store call and leaves the wallet list, the database and the rest of the
  state as they were. The return is silent: nothing is thrown, alerted or logged.
\<close>

theorem manual_add_missing_balance_silent:
  assumes "nw_balance (newWalletForm s) = [] \<or> nw_balanceUSD (newWalletForm s) = []"
  shows "handleAddWallet env s = s \<and>
         storeCalls (effects (handleAddWallet env s)) = storeCalls (effects s) \<and>
         wallets (handleAddWallet env s) = wallets s \<and>
         db (handleAddWallet env s) = db s \<and>
         alerts (effects (handleAddWallet env s)) = alerts (effects s) \<and>
         consoleErrors (effects (handleAddWallet env s)) = consoleErrors (effects s)"
proof -
  have "handleAddWallet env s = s"
    using assms by (intro handleAddWallet_guard) blast
  then show ?thesis by simp
qed

theorem manual_add_missing_balance_silent_witness:
  "(nw_balance (newWalletForm (manualState [] ''300.00'')) = [] \<or>
    nw_balanceUSD (newWalletForm (manualState [] ''300.00'')) = []) \<and>
   handleAddWallet (stubEnv stubResponse) (manualState [] ''300.00'') = manualState [] ''300.00'' \<and>
   storeCalls (effects (handleAddWallet (stubEnv stubResponse) (manualState [] ''300.00''))) = [] \<and>
   wallets (handleAddWallet (stubEnv stubResponse) (manualState [] ''300.00'')) = []"
proof -
  have h: "nw_balance (newWalletForm (manualState [] ''300.00'')) = [] \<or>
           nw_balanceUSD (newWalletForm (manualState [] ''300.00'')) = []"
    by (simp add: stub_defs)
  have e: "effects (manualState [] ''300.00'') = []" "wallets (manualState [] ''300.00'') = []"
    by (simp_all add: stub_defs)
  show ?thesis
    using manual_add_missing_balance_silent [OF h, of "stubEnv stubResponse"] h e by simp
qed

text \<open>
  The claim as first stated asks for an \<^verbatim>\<open>InvalidInput\<close> failure that is surfaced,
  also for a balance that does not parse. With an empty balance the handler returns the
  state unchanged and reports nothing; with the balance \<^verbatim>\<open>"abc"\<close> the guard passes,
  \<^verbatim>\<open>parseFloat\<close> gives \<^verbatim>\<open>NaN\<close>, and the record is stored and listed with that balance.
\<close>

theorem manual_add_invalid_input_counterexample:
  "handleAddWallet (stubEnv stubResponse) (manualState [] ''300.00'') = manualState [] ''300.00'' \<and>
   alerts (effects (handleAddWallet (stubEnv stubResponse) (manualState [] ''300.00''))) = [] \<and>
   consoleErrors (effects (handleAddWallet (stubEnv stubResponse) (manualState [] ''300.00''))) = [] \<and>
   parseFloat ''abc'' = NaN \<and>
   storeCalls (effects (handleAddWallet (stubEnv stubResponse) (manualState ''abc'' ''300.00''))) =
     [newWallet 1000 (manualForm ''abc'' ''300.00'')] \<and>
   map balance (wallets (handleAddWallet (stubEnv stubResponse) (manualState ''abc'' ''300.00''))) = [NaN] \<and>
   wallets (handleAddWallet (stubEnv stubResponse) (manualState ''abc'' ''300.00''))
     \<noteq> wallets (manualState ''abc'' ''300.00'') \<and>
   alerts (effects (handleAddWallet (stubEnv stubResponse) (manualState ''abc'' ''300.00''))) = [] \<and>
   consoleErrors (effects (handleAddWallet (stubEnv stubResponse) (manualState ''abc'' ''300.00''))) = []"
proof -
  have a: "handleAddWallet (stubEnv stubResponse) (manualState [] ''300.00'') = manualState [] ''300.00''"
    by (rule handleAddWallet_guard) (simp add: stub_defs)
  have e: "effects (manualState [] ''300.00'') = []"
    by (simp add: stub_defs)
  have p: "parseFloat ''abc'' = NaN"
    by (simp add: parse_defs)
  have b: "handleAddWallet (stubEnv stubResponse) (manualState ''abc'' ''300.00'') =
       (manualState ''abc'' ''300.00'')
         \<lparr> effects := [StoreCall (newWallet 1000 (manualForm ''abc'' ''300.00''))],
           db := Some [newWallet 1000 (manualForm ''abc'' ''300.00'')],
           wallets := [newWallet 1000 (manualForm ''abc'' ''300.00'')],
           showAddModal := False,
           newWalletForm := emptyNewWalletForm \<rparr>"
    by (simp add: handleAddWallet_def Let_def emit_def stubEnv_def manualState_def
        initialState_def insert_store_def manualForm_def)
  have w: "wallets (manualState ''abc'' ''300.00'') = []"
    by (simp add: stub_defs)
  have n: "balance (newWallet 1000 (manualForm ''abc'' ''300.00'') :: string wallet) = NaN"
    by (simp add: newWallet_def manualForm_def p)
  show ?thesis
    by (simp add: a e p b w n)
qed

text \<open>
  Claim C5. For every manual-add request with name, address, balance and
  \<^verbatim>\<open>balanceUSD\<close> supplied (and a database open), \<^verbatim>\<open>handleAddWallet\<close> hands exactly one
  record to the store: it carries the given name, address and network and the parsed
  balances, its \<^verbatim>\<open>change24h\<close> and \<^verbatim>\<open>changePercent24h\<close> are zero, its tokens and
  transactions are empty, and it has neither \<^verbatim>\<open>encryptedPrivateKey\<close> nor
  \<^verbatim>\<open>encryptedMnemonic\<close>. When the store accepts it, it is the record appended to the
  wallet list.
\<close>

theorem manual_add_record:
  assumes "nw_name (newWalletForm s) \<noteq> []" and "nw_address (newWalletForm s) \<noteq> []"
    and "nw_balance (newWalletForm s) \<noteq> []" and "nw_balanceUSD (newWalletForm s) \<noteq> []"
    and "db s = Some d"
  shows "\<exists>w. storeCalls (effects (handleAddWallet env s)) = storeCalls (effects s) @ [w] \<and>
             name w = nw_name (newWalletForm s) \<and>
             address w = nw_address (newWalletForm s) \<and>
             network w = nw_network (newWalletForm s) \<and>
             balance w = parseFloat (nw_balance (newWalletForm s)) \<and>
             balanceUSD w = parseFloat (nw_balanceUSD (newWalletForm s)) \<and>
             change24h w = Fin 0 \<and> changePercent24h w = Fin 0 \<and>
             tokens w = [] \<and> transactions w = [] \<and>
             encryptedPrivateKey w = None \<and> encryptedMnemonic w = None \<and>
             (\<forall>d'. saveWallet env d w = Inr d' \<longrightarrow>
                wallets (handleAddWallet env s) = wallets s @ [w] \<and>
                db (handleAddWallet env s) = Some d')"
proof -
  let ?w = "newWallet (now env) (newWalletForm s) :: 'b wallet"
  have calls: "storeCalls (effects (handleAddWallet env s)) = storeCalls (effects s) @ [?w]"
  proof (cases "saveWallet env d ?w")
    case (Inl e)
    show ?thesis by (simp add: handleAddWallet_failed [OF assms Inl] effects_append)
  next
    case (Inr d')
    show ?thesis by (simp add: handleAddWallet_saved [OF assms Inr] effects_append)
  qed
  have saved: "\<forall>d'. saveWallet env d ?w = Inr d' \<longrightarrow>
                wallets (handleAddWallet env s) = wallets s @ [?w] \<and>
                db (handleAddWallet env s) = Some d'"
    by (auto simp: handleAddWallet_saved [OF assms])
  show ?thesis
    by (rule exI [of _ ?w]) (use calls saved in \<open>simp add: newWallet_def\<close>)
qed

theorem manual_add_record_witness:
  "nw_name (newWalletForm (manualState ''1.5'' ''300.00'')) \<noteq> [] \<and>
   nw_address (newWalletForm (manualState ''1.5'' ''300.00'')) \<noteq> [] \<and>
   nw_balance (newWalletForm (manualState ''1.5'' ''300.00'')) \<noteq> [] \<and>
   nw_balanceUSD (newWalletForm (manualState ''1.5'' ''300.00'')) \<noteq> [] \<and>
   db (manualState ''1.5'' ''300.00'') = Some [] \<and>
   (\<exists>w. storeCalls (effects (handleAddWallet (stubEnv stubResponse) (manualState ''1.5'' ''300.00''))) = [w] \<and>
        wallets (handleAddWallet (stubEnv stubResponse) (manualState ''1.5'' ''300.00'')) = [w] \<and>
        address w = ''0xdef'' \<and> network w = Bnb \<and>
        balance w = Fin 1.5 \<and> balanceUSD w = Fin 300 \<and>
        change24h w = Fin 0 \<and> changePercent24h w = Fin 0 \<and>
        encryptedPrivateKey w = None \<and> encryptedMnemonic w = None)"
proof -
  let ?s = "manualState ''1.5'' ''300.00''"
  let ?E = "stubEnv stubResponse"
  have f: "newWalletForm ?s = manualForm ''1.5'' ''300.00''" by (simp add: manualState_def)
  have h1: "nw_name (newWalletForm ?s) \<noteq> []" by (simp add: f manualForm_def)
  have h2: "nw_address (newWalletForm ?s) \<noteq> []" by (simp add: f manualForm_def)
  have h3: "nw_balance (newWalletForm ?s) \<noteq> []" by (simp add: f manualForm_def)
  have h4: "nw_balanceUSD (newWalletForm ?s) \<noteq> []" by (simp add: f manualForm_def)
  have h5: "db ?s = Some []" by (simp add: manualState_def initialState_def)
  have p1: "parseFloat ''1.5'' = Fin 1.5" by (simp add: parse_defs)
  have p2: "parseFloat ''300.00'' = Fin 300" by (simp add: parse_defs)
  have e: "effects ?s = []" "wallets ?s = []" by (simp_all add: manualState_def initialState_def)
  from manual_add_record [OF h1 h2 h3 h4 h5, of ?E]
  obtain w where w: "storeCalls (effects (handleAddWallet ?E ?s)) = storeCalls (effects ?s) @ [w]"
    "address w = nw_address (newWalletForm ?s)" "network w = nw_network (newWalletForm ?s)"
    "balance w = parseFloat (nw_balance (newWalletForm ?s))"
    "balanceUSD w = parseFloat (nw_balanceUSD (newWalletForm ?s))"
    "change24h w = Fin 0" "changePercent24h w = Fin 0"
    "encryptedPrivateKey w = None" "encryptedMnemonic w = None"
    "\<forall>d'. saveWallet ?E [] w = Inr d' \<longrightarrow>
        wallets (handleAddWallet ?E ?s) = wallets ?s @ [w] \<and> db (handleAddWallet ?E ?s) = Some d'"
    by blast
  have sv: "saveWallet ?E [] w = Inr [w]" by (simp add: stubEnv_def insert_store_def)
  have wl: "wallets (handleAddWallet ?E ?s) = [w]" using w(10) sv e by simp
  show ?thesis
    using h1 h2 h3 h4 h5 w(1-9) wl e
    by (intro conjI exI [of _ w]) (simp_all add: f manualForm_def p1 p2)
qed

subsection \<open>What a run can change\<close>

lemma handleAddWallet_db:
  "db (handleAddWallet env s) = db s \<or>
   (\<exists>d w d'. db s = Some d \<and> saveWallet env d w = Inr d' \<and> db (handleAddWallet env s) = Some d')"
  by (auto simp: handleAddWallet_def Let_def emit_def split: option.splits sum.splits)

lemma handleCreateWallet_db:
  "db (handleCreateWallet env s) = db s \<or>
   (\<exists>d w d'. db s = Some d \<and> saveWallet env d w = Inr d' \<and> db (handleCreateWallet env s) = Some d')"
  by (auto simp: handleCreateWallet_def createWalletTry_def Let_def emit_def
      split: option.splits sum.splits)

lemma insert_store_distinct:
  "insert_store d w = Inr d' \<Longrightarrow> distinct (map wallet_id d) \<Longrightarrow> distinct (map wallet_id d')"
  by (auto simp: insert_store_def split: if_splits)

lemma handleAddWallet_appends:
  assumes "db s = Some d" and "saveWallet env d w = Inr d'"
    and "storeCalls (effects (handleAddWallet env s)) = storeCalls (effects s) @ [w]"
  shows "wallets (handleAddWallet env s) = wallets s @ [w] \<and> db (handleAddWallet env s) = Some d'"
  using assms
  by (auto simp: handleAddWallet_def Let_def emit_def effects_append split: sum.splits if_splits)

lemma handleCreateWallet_appends:
  assumes "db s = Some d" and "saveWallet env d w = Inr d'"
    and "storeCalls (effects (handleCreateWallet env s)) = storeCalls (effects s) @ [w]"
  shows "wallets (handleCreateWallet env s) = wallets s @ [w] \<and> db (handleCreateWallet env s) = Some d'"
  using assms
  by (auto simp: handleCreateWallet_def createWalletTry_def Let_def emit_def effects_append
      split: sum.splits if_splits)

lemma handleAddWallet_prefix:
  "wallets (handleAddWallet env s) = wallets s \<or>
   (\<exists>w. wallets (handleAddWallet env s) = wallets s @ [w])"
  by (auto simp: handleAddWallet_def Let_def emit_def split: option.splits sum.splits)

lemma handleCreateWallet_prefix:
  "wallets (handleCreateWallet env s) = wallets s \<or>
   (\<exists>w. wallets (handleCreateWallet env s) = wallets s @ [w])"
  by (auto simp: handleCreateWallet_def createWalletTry_def Let_def emit_def
      split: option.splits sum.splits)

lemma handleAddWallet_newlyCreated:
  "newlyCreatedWallet (handleAddWallet env s) = newlyCreatedWallet s"
  by (auto simp: handleAddWallet_def Let_def emit_def split: option.splits sum.splits)

lemma createState_run:
  "handleCreateWallet (stubEnv stubResponse) createState =
     createState
       \<lparr> effects := [ProviderCall Ethereum, SealCall ''k1'' ''pw123'', SealCall ''m1 m2'' ''pw123'',
                     StoreCall (walletData 1000 createForm stubResponse ''0:pw123:k1'' (Some ''1:pw123:m1 m2''))],
         db := Some [walletData 1000 createForm stubResponse ''0:pw123:k1'' (Some ''1:pw123:m1 m2'')],
         wallets := [walletData 1000 createForm stubResponse ''0:pw123:k1'' (Some ''1:pw123:m1 m2'')],
         newlyCreatedWallet :=
           Some \<lparr> nc_address = ''0xabc'', nc_privateKey = ''k1'', nc_mnemonic = Some ''m1 m2'',
                  nc_network = Ethereum, nc_name = ''W1'' \<rparr>,
         showCreateModal := False,
         showSuccessModal := True,
         createWalletForm := emptyCreateWalletForm,
         isCreatingWallet := False \<rparr>"
  by (simp add: handleCreateWallet_def createWalletTry_def Let_def emit_def stubEnv_def
      stubResponse_def stubCipher_def createState_def initialState_def createForm_def
      sealMnemonic_def insert_store_def digitChar_def toString.simps)

lemma dupState_run:
  "handleCreateWallet (stubEnv stubResponse) dupState =
     dupState
       \<lparr> effects := [ProviderCall Ethereum, SealCall ''k1'' ''pw123'', SealCall ''m1 m2'' ''pw123'',
                     StoreCall (walletData 1000 createForm stubResponse ''0:pw123:k1'' (Some ''1:pw123:m1 m2'')),
                     ConsoleError ''Error creating wallet:'' duplicateId,
                     Alert ''Error creating wallet2: DuplicateId''],
         isCreatingWallet := False \<rparr>"
  by (simp add: handleCreateWallet_def createWalletTry_def Let_def emit_def stubEnv_def
      stubResponse_def stubCipher_def dupState_def initialState_def createForm_def
      sealMnemonic_def insert_store_def digitChar_def toString.simps trackedWallet_def alertText_def duplicateId_def)
     (simp add: walletData_def digitChar_def toString.simps)

lemma heldManualState_run:
  "handleAddWallet (stubEnv stubResponse) heldManualState =
     heldManualState
       \<lparr> effects := [StoreCall (newWallet 1000 (manualForm ''1.5'' ''300.00''))],
         db := Some (heldWallets @ [newWallet 1000 (manualForm ''1.5'' ''300.00'')]),
         wallets := heldWallets @ [newWallet 1000 (manualForm ''1.5'' ''300.00'')],
         showAddModal := False,
         newWalletForm := emptyNewWalletForm \<rparr>"
proof -
  have i: "insert_store heldWallets (newWallet 1000 (manualForm ''1.5'' ''300.00''))
             = Inr (heldWallets @ [newWallet 1000 (manualForm ''1.5'' ''300.00'')])"
    by (simp add: insert_store_def heldWallets_def trackedWallet_def newWallet_def
        toString.simps digitChar_def)
  show ?thesis
    by (simp add: handleAddWallet_def Let_def emit_def stubEnv_def heldManualState_def
        initialState_def manualForm_def i [unfolded manualForm_def])
qed

lemma heldCreateState_run:
  "handleCreateWallet (stubEnv stubResponse) heldCreateState =
     heldCreateState
       \<lparr> effects := [ProviderCall Ethereum, SealCall ''k1'' ''pw123'', SealCall ''m1 m2'' ''pw123'',
                     StoreCall (walletData 1000 createForm stubResponse ''0:pw123:k1'' (Some ''1:pw123:m1 m2''))],
         db := Some (heldWallets @
                 [walletData 1000 createForm stubResponse ''0:pw123:k1'' (Some ''1:pw123:m1 m2'')]),
         wallets := heldWallets @
                 [walletData 1000 createForm stubResponse ''0:pw123:k1'' (Some ''1:pw123:m1 m2'')],
         newlyCreatedWallet :=
           Some \<lparr> nc_address = ''0xabc'', nc_privateKey = ''k1'', nc_mnemonic = Some ''m1 m2'',
                  nc_network = Ethereum, nc_name = ''W1'' \<rparr>,
         showCreateModal := False,
         showSuccessModal := True,
         createWalletForm := emptyCreateWalletForm,
         isCreatingWallet := False \<rparr>"
proof -
  let ?w = "walletData 1000 createForm stubResponse ''0:pw123:k1'' (Some ''1:pw123:m1 m2'')"
  have h1: "db heldCreateState = Some heldWallets" by (simp add: heldCreateState_def initialState_def)
  have f: "createWalletForm heldCreateState = createForm" by (simp add: heldCreateState_def initialState_def)
  have h2: "cw_name (createWalletForm heldCreateState) \<noteq> []" by (simp add: f createForm_def)
  have h3: "cw_passphrase (createWalletForm heldCreateState) \<noteq> []" by (simp add: f createForm_def)
  have h4: "createWallet (stubEnv stubResponse) (cw_network (createWalletForm heldCreateState)) = Inr stubResponse"
    by (simp add: stubEnv_def)
  have h5: "r_key stubResponse = Some ''k1''" by (simp add: stubResponse_def)
  have h6: "''k1'' \<noteq> []" by simp
  have h7: "encryptPrivateKey (stubEnv stubResponse) 0 ''k1'' (cw_passphrase (createWalletForm heldCreateState))
              = Inr ''0:pw123:k1''"
    by (simp add: f createForm_def stubEnv_def stubCipher_def toString.simps digitChar_def)
  have h8: "sealMnemonic (stubEnv stubResponse) stubResponse (cw_passphrase (createWalletForm heldCreateState))
              = Inr (Some ''1:pw123:m1 m2'')"
    by (simp add: f createForm_def stubEnv_def stubCipher_def stubResponse_def sealMnemonic_def
        toString.simps digitChar_def)
  have n: "now (stubEnv stubResponse) = 1000" by (simp add: stubEnv_def)
  have h9: "saveWallet (stubEnv stubResponse) heldWallets
              (walletData (now (stubEnv stubResponse)) (createWalletForm heldCreateState) stubResponse
                 ''0:pw123:k1'' (Some ''1:pw123:m1 m2'')) = Inr (heldWallets @ [?w])"
    by (simp add: n f) (simp add: stubEnv_def insert_store_def heldWallets_def trackedWallet_def
        walletData_def toString.simps digitChar_def)
  show ?thesis
    by (simp add: handleCreateWallet_saved [OF h1 h2 h3 h4 h5 h6 h7 h8 h9] n f)
       (simp add: createForm_def stubResponse_def heldCreateState_def initialState_def)
qed

subsection \<open>Insertion order\<close>

text \<open>
  Claim C10. Every successful insertion, by \<^verbatim>\<open>handleAddWallet\<close> or by
  \<^verbatim>\<open>handleCreateWallet\<close>, gives the previous wallet list with the new record appended
  at its end: whenever the handler hands a record \<open>w\<close> to the store and the store
  accepts it, the new list is \<open>wallets s @ [w]\<close>. No run changes the list in another
  way: it is the old list, or the old list with one record appended.
\<close>

theorem insertion_appends:
  "(db s = Some d \<and> saveWallet env d w = Inr d' \<and>
    storeCalls (effects (handleAddWallet env s)) = storeCalls (effects s) @ [w] \<longrightarrow>
      wallets (handleAddWallet env s) = wallets s @ [w] \<and> db (handleAddWallet env s) = Some d') \<and>
   (db s = Some d \<and> saveWallet env d w = Inr d' \<and>
    storeCalls (effects (handleCreateWallet env s)) = storeCalls (effects s) @ [w] \<longrightarrow>
      wallets (handleCreateWallet env s) = wallets s @ [w] \<and> db (handleCreateWallet env s) = Some d') \<and>
   (wallets (handleAddWallet env s) = wallets s \<or>
      (\<exists>v. wallets (handleAddWallet env s) = wallets s @ [v])) \<and>
   (wallets (handleCreateWallet env s) = wallets s \<or>
      (\<exists>v. wallets (handleCreateWallet env s) = wallets s @ [v]))"
  using handleAddWallet_appends [of s d env w d'] handleCreateWallet_appends [of s d env w d']
    handleAddWallet_prefix [of env s] handleCreateWallet_prefix [of env s]
  by blast

theorem insertion_appends_witness:
  "wallets heldManualState = heldWallets \<and> heldWallets \<noteq> [] \<and>
   db heldManualState = Some heldWallets \<and>
   saveWallet (stubEnv stubResponse) heldWallets (newWallet 1000 (manualForm ''1.5'' ''300.00''))
     = Inr (heldWallets @ [newWallet 1000 (manualForm ''1.5'' ''300.00'')]) \<and>
   storeCalls (effects (handleAddWallet (stubEnv stubResponse) heldManualState))
     = storeCalls (effects heldManualState) @ [newWallet 1000 (manualForm ''1.5'' ''300.00'')] \<and>
   wallets (handleAddWallet (stubEnv stubResponse) heldManualState)
     = [trackedWallet (Fin 100) (Fin 10),
        (trackedWallet (Fin 250) (Fin (- 5)))\<lparr>wallet_id := ''2''\<rparr>,
        newWallet 1000 (manualForm ''1.5'' ''300.00'')] \<and>
   wallets heldCreateState = heldWallets \<and>
   db heldCreateState = Some heldWallets \<and>
   saveWallet (stubEnv stubResponse) heldWallets
       (walletData 1000 createForm stubResponse ''0:pw123:k1'' (Some ''1:pw123:m1 m2''))
     = Inr (heldWallets @ [walletData 1000 createForm stubResponse ''0:pw123:k1'' (Some ''1:pw123:m1 m2'')]) \<and>
   storeCalls (effects (handleCreateWallet (stubEnv stubResponse) heldCreateState))
     = storeCalls (effects heldCreateState) @
         [walletData 1000 createForm stubResponse ''0:pw123:k1'' (Some ''1:pw123:m1 m2'')] \<and>
   wallets (handleCreateWallet (stubEnv stubResponse) heldCreateState)
     = [trackedWallet (Fin 100) (Fin 10),
        (trackedWallet (Fin 250) (Fin (- 5)))\<lparr>wallet_id := ''2''\<rparr>,
        walletData 1000 createForm stubResponse ''0:pw123:k1'' (Some ''1:pw123:m1 m2'')]"
proof -
  let ?E = "stubEnv stubResponse"
  let ?a = "newWallet 1000 (manualForm ''1.5'' ''300.00'') :: string wallet"
  let ?c = "walletData 1000 createForm stubResponse ''0:pw123:k1'' (Some ''1:pw123:m1 m2'')"
  have w0: "wallets heldManualState = heldWallets" "heldWallets \<noteq> []"
    "wallets heldCreateState = heldWallets"
    by (simp_all add: heldManualState_def heldCreateState_def initialState_def heldWallets_def)
  have a1: "db heldManualState = Some heldWallets"
    by (simp add: heldManualState_def initialState_def)
  have a2: "saveWallet ?E heldWallets ?a = Inr (heldWallets @ [?a])"
    by (simp add: stubEnv_def insert_store_def heldWallets_def trackedWallet_def newWallet_def
        toString.simps digitChar_def)
  have a3: "storeCalls (effects (handleAddWallet ?E heldManualState))
              = storeCalls (effects heldManualState) @ [?a]"
    by (simp add: heldManualState_run) (simp add: heldManualState_def initialState_def)
  have c1: "db heldCreateState = Some heldWallets"
    by (simp add: heldCreateState_def initialState_def)
  have c2: "saveWallet ?E heldWallets ?c = Inr (heldWallets @ [?c])"
    by (simp add: stubEnv_def insert_store_def heldWallets_def trackedWallet_def walletData_def
        toString.simps digitChar_def)
  have c3: "storeCalls (effects (handleCreateWallet ?E heldCreateState))
              = storeCalls (effects heldCreateState) @ [?c]"
    by (simp add: heldCreateState_run) (simp add: heldCreateState_def initialState_def)
  from insertion_appends [of heldManualState heldWallets ?E ?a "heldWallets @ [?a]"] a1 a2 a3
  have "wallets (handleAddWallet ?E heldManualState) = wallets heldManualState @ [?a]"
    by blast
  then have ra: "wallets (handleAddWallet ?E heldManualState)
      = [trackedWallet (Fin 100) (Fin 10), (trackedWallet (Fin 250) (Fin (- 5)))\<lparr>wallet_id := ''2''\<rparr>, ?a]"
    by (simp add: w0) (simp add: heldWallets_def)
  from insertion_appends [of heldCreateState heldWallets ?E ?c "heldWallets @ [?c]"] c1 c2 c3
  have "wallets (handleCreateWallet ?E heldCreateState) = wallets heldCreateState @ [?c]"
    by blast
  then have rc: "wallets (handleCreateWallet ?E heldCreateState)
      = [trackedWallet (Fin 100) (Fin 10), (trackedWallet (Fin 250) (Fin (- 5)))\<lparr>wallet_id := ''2''\<rparr>, ?c]"
    by (simp add: w0) (simp add: heldWallets_def)
  from w0 a1 a2 a3 ra c1 c2 c3 rc show ?thesis
    by (intro conjI)
qed

subsection \<open>Identifiers\<close>

text \<open>
  Claim C7, as amended. Record identifiers are unique within the store: an insertion
  that succeeds adds a record whose id was not present, an insertion of a record whose id
  is present is rejected with \<^verbatim>\<open>DuplicateId\<close>, so distinct identifiers are kept by
  every insertion and by every run of the two handlers against this store. A
  \<^verbatim>\<open>DuplicateId\<close> during the creation of a generated wallet is not retried: the handler
  makes its one store call, shows the error in the alert, and leaves the wallet list and
  the database as they were.
\<close>

theorem store_ids_unique_no_retry:
  "(insert_store d w = Inr d' \<longrightarrow> wallet_id w \<notin> set (map wallet_id d) \<and> d' = d @ [w]) \<and>
   (wallet_id w \<in> set (map wallet_id d) \<longrightarrow> insert_store d w = Inl duplicateId) \<and>
   (distinct (map wallet_id d) \<and> insert_store d w = Inr d' \<longrightarrow> distinct (map wallet_id d')) \<and>
   (saveWallet env = insert_store \<and> db s = Some d \<and> distinct (map wallet_id d) \<longrightarrow>
      (\<exists>d1. db (handleAddWallet env s) = Some d1 \<and> distinct (map wallet_id d1)) \<and>
      (\<exists>d2. db (handleCreateWallet env s) = Some d2 \<and> distinct (map wallet_id d2))) \<and>
   (saveWallet env = insert_store \<and> db s = Some d \<and>
    cw_name (createWalletForm s) \<noteq> [] \<and> cw_passphrase (createWalletForm s) \<noteq> [] \<and>
    createWallet env (cw_network (createWalletForm s)) = Inr r \<and>
    r_key r = Some k \<and> k \<noteq> [] \<and>
    encryptPrivateKey env 0 k (cw_passphrase (createWalletForm s)) = Inr bk \<and>
    sealMnemonic env r (cw_passphrase (createWalletForm s)) = Inr bm \<and>
    toString (now env) \<in> set (map wallet_id d) \<longrightarrow>
      storeCalls (effects (handleCreateWallet env s)) =
        storeCalls (effects s) @ [walletData (now env) (createWalletForm s) r bk bm] \<and>
      alerts (effects (handleCreateWallet env s)) = alerts (effects s) @ [alertText duplicateId] \<and>
      wallets (handleCreateWallet env s) = wallets s \<and>
      db (handleCreateWallet env s) = db s)"
proof (intro conjI impI)
  assume "insert_store d w = Inr d'"
  then show "wallet_id w \<notin> set (map wallet_id d)" "d' = d @ [w]"
    by (auto simp: insert_store_def split: if_splits)
next
  assume "wallet_id w \<in> set (map wallet_id d)"
  then show "insert_store d w = Inl duplicateId"
    by (simp add: insert_store_def)
next
  assume "distinct (map wallet_id d) \<and> insert_store d w = Inr d'"
  then show "distinct (map wallet_id d')"
    using insert_store_distinct by blast
next
  assume a: "saveWallet env = insert_store \<and> db s = Some d \<and> distinct (map wallet_id d)"
  then have sv: "saveWallet env = insert_store" and dbs: "db s = Some d"
    and dist: "distinct (map wallet_id d)"
    by simp_all
  show "\<exists>d1. db (handleAddWallet env s) = Some d1 \<and> distinct (map wallet_id d1)"
  proof -
    from handleAddWallet_db [of env s]
    consider "db (handleAddWallet env s) = db s"
      | d0 w0 d1 where "db s = Some d0" "saveWallet env d0 w0 = Inr d1"
          "db (handleAddWallet env s) = Some d1"
      by blast
    then show ?thesis
    proof cases
      case 1
      then show ?thesis using dbs dist by simp
    next
      case 2
      from 2(1) dbs have "d0 = d" by simp
      with 2(2) sv have "insert_store d w0 = Inr d1" by simp
      from insert_store_distinct [OF this dist] 2(3) show ?thesis by simp
    qed
  qed
  show "\<exists>d2. db (handleCreateWallet env s) = Some d2 \<and> distinct (map wallet_id d2)"
  proof -
    from handleCreateWallet_db [of env s]
    consider "db (handleCreateWallet env s) = db s"
      | d0 w0 d1 where "db s = Some d0" "saveWallet env d0 w0 = Inr d1"
          "db (handleCreateWallet env s) = Some d1"
      by blast
    then show ?thesis
    proof cases
      case 1
      then show ?thesis using dbs dist by simp
    next
      case 2
      from 2(1) dbs have "d0 = d" by simp
      with 2(2) sv have "insert_store d w0 = Inr d1" by simp
      from insert_store_distinct [OF this dist] 2(3) show ?thesis by simp
    qed
  qed
next
  assume a: "saveWallet env = insert_store \<and> db s = Some d \<and>
    cw_name (createWalletForm s) \<noteq> [] \<and> cw_passphrase (createWalletForm s) \<noteq> [] \<and>
    createWallet env (cw_network (createWalletForm s)) = Inr r \<and>
    r_key r = Some k \<and> k \<noteq> [] \<and>
    encryptPrivateKey env 0 k (cw_passphrase (createWalletForm s)) = Inr bk \<and>
    sealMnemonic env r (cw_passphrase (createWalletForm s)) = Inr bm \<and>
    toString (now env) \<in> set (map wallet_id d)"
  let ?w = "walletData (now env) (createWalletForm s) r bk bm"
  have "wallet_id ?w = toString (now env)" by (simp add: walletData_def)
  with a have sv: "saveWallet env d ?w = Inl duplicateId"
    by (simp add: insert_store_def)
  from a have h: "db s = Some d" "cw_name (createWalletForm s) \<noteq> []"
    "cw_passphrase (createWalletForm s) \<noteq> []"
    "createWallet env (cw_network (createWalletForm s)) = Inr r" "r_key r = Some k" "k \<noteq> []"
    "encryptPrivateKey env 0 k (cw_passphrase (createWalletForm s)) = Inr bk"
    "sealMnemonic env r (cw_passphrase (createWalletForm s)) = Inr bm"
    by simp_all
  note run = handleCreateWallet_store_failed [OF h sv]
  show "storeCalls (effects (handleCreateWallet env s)) = storeCalls (effects s) @ [?w]"
    by (simp add: run effects_append)
  show "alerts (effects (handleCreateWallet env s)) = alerts (effects s) @ [alertText duplicateId]"
    by (simp add: run effects_append)
  show "wallets (handleCreateWallet env s) = wallets s" by (simp add: run)
  show "db (handleCreateWallet env s) = db s" by (simp add: run)
qed

theorem store_ids_unique_no_retry_witness:
  "insert_store [] (trackedWallet (Fin 100) (Fin 0)) = Inr [trackedWallet (Fin 100) (Fin 0)] \<and>
   wallet_id (trackedWallet (Fin 100) (Fin 0))
     \<in> set (map wallet_id [trackedWallet (Fin 100) (Fin 0)]) \<and>
   insert_store [trackedWallet (Fin 100) (Fin 0)] (trackedWallet (Fin 100) (Fin 0)) = Inl duplicateId \<and>
   distinct (map wallet_id ([] :: string wallet list)) \<and>
   distinct (map wallet_id [trackedWallet (Fin 100) (Fin 0)]) \<and>
   saveWallet (stubEnv stubResponse) = insert_store \<and>
   db dupState = Some [(trackedWallet (Fin 100) (Fin 0))\<lparr>wallet_id := ''1000''\<rparr>] \<and>
   distinct (map wallet_id [(trackedWallet (Fin 100) (Fin 0))\<lparr>wallet_id := ''1000''\<rparr>]) \<and>
   (\<exists>d1. db (handleAddWallet (stubEnv stubResponse) dupState) = Some d1 \<and> distinct (map wallet_id d1)) \<and>
   (\<exists>d2. db (handleCreateWallet (stubEnv stubResponse) dupState) = Some d2 \<and> distinct (map wallet_id d2)) \<and>
   cw_name (createWalletForm dupState) \<noteq> [] \<and> cw_passphrase (createWalletForm dupState) \<noteq> [] \<and>
   createWallet (stubEnv stubResponse) (cw_network (createWalletForm dupState)) = Inr stubResponse \<and>
   r_key stubResponse = Some ''k1'' \<and>
   encryptPrivateKey (stubEnv stubResponse) 0 ''k1'' (cw_passphrase (createWalletForm dupState))
     = Inr ''0:pw123:k1'' \<and>
   sealMnemonic (stubEnv stubResponse) stubResponse (cw_passphrase (createWalletForm dupState))
     = Inr (Some ''1:pw123:m1 m2'') \<and>
   toString (now (stubEnv stubResponse))
     \<in> set (map wallet_id [(trackedWallet (Fin 100) (Fin 0))\<lparr>wallet_id := ''1000''\<rparr>]) \<and>
   storeCalls (effects (handleCreateWallet (stubEnv stubResponse) dupState)) =
     [walletData 1000 createForm stubResponse ''0:pw123:k1'' (Some ''1:pw123:m1 m2'')] \<and>
   alerts (effects (handleCreateWallet (stubEnv stubResponse) dupState)) =
     [''Error creating wallet2: DuplicateId''] \<and>
   wallets (handleCreateWallet (stubEnv stubResponse) dupState) = wallets dupState \<and>
   db (handleCreateWallet (stubEnv stubResponse) dupState) = db dupState"
proof -
  let ?E = "stubEnv stubResponse"
  let ?t = "trackedWallet (Fin 100) (Fin 0)"
  let ?d = "[?t\<lparr>wallet_id := ''1000''\<rparr>]"
  have i1: "insert_store [] ?t = Inr [?t]" by (simp add: insert_store_def)
  have i2: "wallet_id ?t \<in> set (map wallet_id [?t])" by simp
  have i3: "distinct (map wallet_id ([] :: string wallet list))" by simp
  have h0: "saveWallet ?E = insert_store" by (simp add: stubEnv_def)
  have h1: "db dupState = Some ?d" by (simp add: dupState_def initialState_def)
  have h1': "distinct (map wallet_id ?d)" by simp
  have h2: "cw_name (createWalletForm dupState) \<noteq> []" by (simp add: stub_defs)
  have h3: "cw_passphrase (createWalletForm dupState) \<noteq> []" by (simp add: stub_defs)
  have h4: "createWallet ?E (cw_network (createWalletForm dupState)) = Inr stubResponse"
    by (simp add: stubEnv_def)
  have h5: "r_key stubResponse = Some ''k1''" by (simp add: stub_defs)
  have h6: "''k1'' \<noteq> []" by simp
  have h7: "encryptPrivateKey ?E 0 ''k1'' (cw_passphrase (createWalletForm dupState)) = Inr ''0:pw123:k1''"
    by (simp add: stub_defs)
  have h8: "sealMnemonic ?E stubResponse (cw_passphrase (createWalletForm dupState))
              = Inr (Some ''1:pw123:m1 m2'')"
    by (simp add: stub_defs)
  have h9: "toString (now ?E) \<in> set (map wallet_id ?d)"
    by (simp add: stubEnv_def toString.simps digitChar_def)
  have e: "effects dupState = []" "now ?E = 1000" "createWalletForm dupState = createForm"
    by (simp_all add: dupState_def initialState_def stubEnv_def)
  have msg: "alertText duplicateId = ''Error creating wallet2: DuplicateId''"
    by (simp add: alertText_def duplicateId_def)
  note t1 = store_ids_unique_no_retry [of "[]" ?t "[?t]" ?E dupState stubResponse "''k1''"
      "''0:pw123:k1''" "Some ''1:pw123:m1 m2''"]
  note t2 = store_ids_unique_no_retry [of "[?t]" ?t "[?t]" ?E dupState stubResponse "''k1''"
      "''0:pw123:k1''" "Some ''1:pw123:m1 m2''"]
  note t3 = store_ids_unique_no_retry [of ?d ?t "[?t]" ?E dupState stubResponse "''k1''"
      "''0:pw123:k1''" "Some ''1:pw123:m1 m2''"]
  from t1 i1 i3 have r1: "distinct (map wallet_id [?t])" by blast
  from t2 i2 have r2: "insert_store [?t] ?t = Inl duplicateId" by blast
  from t3 h0 h1 h1' have r3:
    "\<exists>d1. db (handleAddWallet ?E dupState) = Some d1 \<and> distinct (map wallet_id d1)"
    "\<exists>d2. db (handleCreateWallet ?E dupState) = Some d2 \<and> distinct (map wallet_id d2)"
    by blast+
  from t3 h0 h1 h2 h3 h4 h5 h6 h7 h8 h9 have r4:
    "storeCalls (effects (handleCreateWallet ?E dupState)) =
       storeCalls (effects dupState) @
         [walletData (now ?E) (createWalletForm dupState) stubResponse ''0:pw123:k1'' (Some ''1:pw123:m1 m2'')]"
    "alerts (effects (handleCreateWallet ?E dupState)) = alerts (effects dupState) @ [alertText duplicateId]"
    "wallets (handleCreateWallet ?E dupState) = wallets dupState"
    "db (handleCreateWallet ?E dupState) = db dupState"
    by blast+
  from r4(1,2) have r5:
    "storeCalls (effects (handleCreateWallet ?E dupState)) =
       [walletData 1000 createForm stubResponse ''0:pw123:k1'' (Some ''1:pw123:m1 m2'')]"
    "alerts (effects (handleCreateWallet ?E dupState)) = [''Error creating wallet2: DuplicateId'']"
    by (simp_all add: e msg)
  from i1 i2 r2 i3 r1 h0 h1 h1' r3 h2 h3 h4 h5 h7 h8 h9 r5 r4(3,4) show ?thesis
    by (intro conjI)
qed

text \<open>
  The claim as first stated has the creation retried with a fresh identifier instead of
  surfaced. With a record of id \<^verbatim>\<open>"1000"\<close> in the store and the clock at \<open>1000\<close>, the
  handler makes one store call, with the id \<^verbatim>\<open>"1000"\<close>, and alerts the error.
\<close>

theorem duplicate_id_not_retried_counterexample:
  "map wallet_id (wallets dupState) = [''1000''] \<and>
   db dupState = Some (wallets dupState) \<and>
   saveWallet (stubEnv stubResponse) = insert_store \<and>
   map wallet_id (storeCalls (effects (handleCreateWallet (stubEnv stubResponse) dupState))) = [''1000''] \<and>
   alerts (effects (handleCreateWallet (stubEnv stubResponse) dupState)) =
     [''Error creating wallet2: DuplicateId''] \<and>
   wallets (handleCreateWallet (stubEnv stubResponse) dupState) = wallets dupState \<and>
   db (handleCreateWallet (stubEnv stubResponse) dupState) = db dupState"
proof -
  have a: "map wallet_id (wallets dupState) = [''1000'']" "db dupState = Some (wallets dupState)"
    by (simp_all add: dupState_def initialState_def)
  have b: "saveWallet (stubEnv stubResponse) = insert_store"
    by (simp add: stubEnv_def)
  have c: "wallet_id (walletData 1000 createForm stubResponse ''0:pw123:k1'' (Some ''1:pw123:m1 m2''))
             = ''1000''"
    by (simp add: walletData_def toString.simps digitChar_def)
  show ?thesis
    by (simp add: dupState_run a b c)
qed

subsection \<open>The plaintext secrets\<close>

lemma successConfirm_clears: "newlyCreatedWallet (successConfirm s) = None"
  by (simp add: successConfirm_def)

lemma successOpenChange_keeps:
  "newlyCreatedWallet (successOpenChange b s) = newlyCreatedWallet s"
  by (simp add: successOpenChange_def)

text \<open>
  Claim C8, as amended. After a generated wallet has been created, the private key and
  the mnemonic are handed to the store only in their encrypted forms: the one record
  that reaches the store is made of the clock, the name and network of the form, the
  provider's address, zeros, empty lists and the two results of the cipher, and of
  nothing else. The handler returns nothing; the plaintext address, key and mnemonic
  are kept in the component state \<^verbatim>\<open>newlyCreatedWallet\<close> for the success dialog, where
  a later \<^verbatim>\<open>handleAddWallet\<close> leaves them, and the confirmation button of the dialog
  clears them.
\<close>

theorem plaintext_kept_in_component_state:
  assumes "db s = Some d"
    and "cw_name (createWalletForm s) \<noteq> []" and "cw_passphrase (createWalletForm s) \<noteq> []"
    and "createWallet env (cw_network (createWalletForm s)) = Inr r"
    and "r_key r = Some k" and "k \<noteq> []"
    and "encryptPrivateKey env 0 k (cw_passphrase (createWalletForm s)) = Inr bk"
    and "sealMnemonic env r (cw_passphrase (createWalletForm s)) = Inr bm"
    and "saveWallet env d (walletData (now env) (createWalletForm s) r bk bm) = Inr d'"
  shows "newlyCreatedWallet (handleCreateWallet env s) =
           Some \<lparr> nc_address = r_address r, nc_privateKey = k, nc_mnemonic = r_mnemonic r,
                  nc_network = cw_network (createWalletForm s),
                  nc_name = cw_name (createWalletForm s) \<rparr> \<and>
         newlyCreatedWallet (handleAddWallet env' (handleCreateWallet env s)) =
           newlyCreatedWallet (handleCreateWallet env s) \<and>
         newlyCreatedWallet (successConfirm (handleCreateWallet env s)) = None \<and>
         storeCalls (effects (handleCreateWallet env s)) =
           storeCalls (effects s) @
             [\<lparr> wallet_id = toString (now env),
                 name = cw_name (createWalletForm s),
                 address = r_address r,
                 network = cw_network (createWalletForm s),
                 balance = Fin 0, balanceUSD = Fin 0, change24h = Fin 0, changePercent24h = Fin 0,
                 tokens = [], transactions = [],
                 encryptedPrivateKey = Some bk,
                 encryptedMnemonic = bm \<rparr>] \<and>
         db (handleCreateWallet env s) = Some d' \<and>
         (bm \<noteq> None) = truthy (r_mnemonic r) \<and>
         (truthy (r_mnemonic r) \<longrightarrow>
            encryptPrivateKey env 1 (the (r_mnemonic r)) (cw_passphrase (createWalletForm s))
              = Inr (the bm))"
proof -
  note run = handleCreateWallet_saved [OF assms]
  note mn = sealMnemonic_cases [OF assms(8)]
  have a: "newlyCreatedWallet (handleCreateWallet env s) =
           Some \<lparr> nc_address = r_address r, nc_privateKey = k, nc_mnemonic = r_mnemonic r,
                  nc_network = cw_network (createWalletForm s),
                  nc_name = cw_name (createWalletForm s) \<rparr>"
    by (simp add: run)
  have b: "storeCalls (effects (handleCreateWallet env s)) =
           storeCalls (effects s) @
             [\<lparr> wallet_id = toString (now env),
                 name = cw_name (createWalletForm s),
                 address = r_address r,
                 network = cw_network (createWalletForm s),
                 balance = Fin 0, balanceUSD = Fin 0, change24h = Fin 0, changePercent24h = Fin 0,
                 tokens = [], transactions = [],
                 encryptedPrivateKey = Some bk,
                 encryptedMnemonic = bm \<rparr>]"
    by (simp add: run effects_append walletData_def)
  have c: "db (handleCreateWallet env s) = Some d'"
    by (simp add: run)
  from a b c mn handleAddWallet_newlyCreated [of env' "handleCreateWallet env s"]
    successConfirm_clears [of "handleCreateWallet env s"]
  show ?thesis by (intro conjI) simp_all
qed

theorem plaintext_kept_in_component_state_witness:
  "db createState = Some [] \<and>
   cw_name (createWalletForm createState) \<noteq> [] \<and>
   cw_passphrase (createWalletForm createState) \<noteq> [] \<and>
   createWallet (stubEnv stubResponse) (cw_network (createWalletForm createState)) = Inr stubResponse \<and>
   r_key stubResponse = Some ''k1'' \<and>
   encryptPrivateKey (stubEnv stubResponse) 0 ''k1'' ''pw123'' = Inr ''0:pw123:k1'' \<and>
   sealMnemonic (stubEnv stubResponse) stubResponse ''pw123'' = Inr (Some ''1:pw123:m1 m2'') \<and>
   newlyCreatedWallet (handleCreateWallet (stubEnv stubResponse) createState) =
     Some \<lparr> nc_address = ''0xabc'', nc_privateKey = ''k1'', nc_mnemonic = Some ''m1 m2'',
            nc_network = Ethereum, nc_name = ''W1'' \<rparr> \<and>
   newlyCreatedWallet (successConfirm (handleCreateWallet (stubEnv stubResponse) createState)) = None \<and>
   storeCalls (effects (handleCreateWallet (stubEnv stubResponse) createState)) =
     [\<lparr> wallet_id = ''1000'', name = ''W1'', address = ''0xabc'', network = Ethereum,
         balance = Fin 0, balanceUSD = Fin 0, change24h = Fin 0, changePercent24h = Fin 0,
         tokens = [], transactions = [],
         encryptedPrivateKey = Some ''0:pw123:k1'',
         encryptedMnemonic = Some ''1:pw123:m1 m2'' \<rparr>]"
proof -
  let ?E = "stubEnv stubResponse"
  let ?w = "walletData 1000 createForm stubResponse ''0:pw123:k1'' (Some ''1:pw123:m1 m2'')"
  have h1: "db createState = Some []" by (simp add: stub_defs)
  have h2: "cw_name (createWalletForm createState) \<noteq> []" by (simp add: stub_defs)
  have h3: "cw_passphrase (createWalletForm createState) \<noteq> []" by (simp add: stub_defs)
  have h4: "createWallet ?E (cw_network (createWalletForm createState)) = Inr stubResponse"
    by (simp add: stubEnv_def)
  have h5: "r_key stubResponse = Some ''k1''" by (simp add: stub_defs)
  have h6: "''k1'' \<noteq> []" by simp
  have h7: "encryptPrivateKey ?E 0 ''k1'' (cw_passphrase (createWalletForm createState)) = Inr ''0:pw123:k1''"
    by (simp add: stub_defs)
  have h8: "sealMnemonic ?E stubResponse (cw_passphrase (createWalletForm createState))
              = Inr (Some ''1:pw123:m1 m2'')"
    by (simp add: stub_defs)
  have h9: "saveWallet ?E [] (walletData (now ?E) (createWalletForm createState) stubResponse
              ''0:pw123:k1'' (Some ''1:pw123:m1 m2'')) = Inr [?w]"
    by (simp add: stub_defs)
  have e: "effects createState = []" "cw_passphrase (createWalletForm createState) = ''pw123''"
    "cw_name (createWalletForm createState) = ''W1''"
    "cw_network (createWalletForm createState) = Ethereum"
    "r_address stubResponse = ''0xabc''" "r_mnemonic stubResponse = Some ''m1 m2''"
    "toString (now ?E) = ''1000''"
    by (simp_all add: stub_defs)
  show ?thesis
    using plaintext_kept_in_component_state [OF h1 h2 h3 h4 h5 h6 h7 h8 h9] h1 h2 h3 h4 h5 h7 h8
    by (simp add: e)
qed

text \<open>
  The claim as first stated has no plaintext in a structure that outlives the creation.
  After the run against the stub provider the component state holds the key \<^verbatim>\<open>"k1"\<close>
  and the mnemonic, and still does after a following \<^verbatim>\<open>handleAddWallet\<close>.
\<close>

theorem plaintext_disclosure_counterexample:
  "newlyCreatedWallet createState = None \<and>
   newlyCreatedWallet (handleCreateWallet (stubEnv stubResponse) createState) =
     Some \<lparr> nc_address = ''0xabc'', nc_privateKey = ''k1'', nc_mnemonic = Some ''m1 m2'',
            nc_network = Ethereum, nc_name = ''W1'' \<rparr> \<and>
   newlyCreatedWallet (handleAddWallet (stubEnv stubResponse)
       (handleCreateWallet (stubEnv stubResponse) createState)) =
     Some \<lparr> nc_address = ''0xabc'', nc_privateKey = ''k1'', nc_mnemonic = Some ''m1 m2'',
            nc_network = Ethereum, nc_name = ''W1'' \<rparr>"
  by (simp add: handleAddWallet_newlyCreated createState_run) (simp add: createState_def initialState_def)

end
